theory Spec2Isabelle
  imports Complex_Main
begin

section \<open>The set-matching loss of behavioural cloning (\<open>BC._calculate_loss\<close>)\<close>

text \<open>
  The development embeds the regression branch of \<open>BC._calculate_loss\<close>
  (\<open>src/imitation/algorithms/bc.py\<close>, lines 327 to 512). Tensor entries are real numbers;
  the only non-finite values the code can create from finite inputs come from the two
  divisions by a configured size, and they are modelled as \<open>None\<close>. Every exception the
  Python code can raise on the way is a value of type \<open>error\<close>.
\<close>

subsection \<open>Errors, tensors and the configuration\<close>

datatype error =
  IndexError | RuntimeError | ValueError | AssertionError | ZeroDivisionError | UnboundLocalError

text \<open>
  A dense rank-3 tensor: its shape and its entries. \<open>acts\<close> has the shape
  \<open>[batch size, num_traj_action, size_traj]\<close>; entries outside the shape are never read.
\<close>

record tensor3 =
  dim0 :: nat
  dim1 :: nat
  dim2 :: nat
  elem :: "nat \<Rightarrow> nat \<Rightarrow> nat \<Rightarrow> real"

text \<open>A tensor literal, written as nested lists (all of the same lengths).\<close>

definition tensor :: "real list list list \<Rightarrow> tensor3" where
  "tensor xs =
     \<lparr>dim0 = length xs,
      dim1 = (case xs of [] \<Rightarrow> 0 | x # _ \<Rightarrow> length x),
      dim2 = (case xs of (y # _) # _ \<Rightarrow> length y | _ \<Rightarrow> 0),
      elem = (\<lambda>n i k. xs ! n ! i ! k)\<rparr>"

text \<open>
  The three attributes the constructor stores and the loss reads. The sizes are counts, so
  they are naturals here.
\<close>

record config =
  traj_size_pos_ctrl_pts :: nat
  traj_size_yaw_ctrl_pts :: nat
  weight_prob :: real

text \<open>The values returned: \<open>loss\<close> and the entries of \<open>stats_dict\<close>.\<close>

record loss_stats =
  loss :: real
  pos_loss :: "real option"
  yaw_loss :: "real option"
  prob_loss :: real
  time_loss :: real

subsection \<open>The tensor operations the code uses\<close>

text \<open>
  Broadcasting of one dimension: two sizes are compatible when they are equal or one of
  them is 1; the result has the other size, and a dimension of size 1 is read at index 0.
\<close>

definition broadcastable :: "nat \<Rightarrow> nat \<Rightarrow> bool" where
  "broadcastable a b = (a = b \<or> a = 1 \<or> b = 1)"

definition bsize :: "nat \<Rightarrow> nat \<Rightarrow> nat" where
  "bsize a b = (if a = 1 then b else a)"

definition bidx :: "nat \<Rightarrow> nat \<Rightarrow> nat" where
  "bidx sz k = (if sz = 1 then 0 else k)"

text \<open>
  A Python slice \<open>lo:hi\<close> of a dimension of size \<open>L\<close>, as (first index, length): both
  bounds are clipped to \<open>L\<close>.
\<close>

definition py_slice :: "nat \<Rightarrow> nat \<Rightarrow> nat \<Rightarrow> nat \<times> nat" where
  "py_slice L lo hi = (min lo L, min hi L - min lo L)"

text \<open>
  \<open>th.sum(th.nn.MSELoss(reduction='none')(x, y), dim=1)\<close> at one batch row: \<open>x\<close> is the
  slice \<open>sa\<close> of trajectory \<open>i\<close> of row \<open>n\<close> of \<open>a\<close>, \<open>y\<close> the slice \<open>sb\<close> of trajectory
  \<open>j\<close> of row \<open>m\<close> of \<open>b\<close>.
\<close>

definition sq_err_sum ::
  "tensor3 \<Rightarrow> nat \<Rightarrow> nat \<Rightarrow> nat \<times> nat \<Rightarrow> tensor3 \<Rightarrow> nat \<Rightarrow> nat \<Rightarrow> nat \<times> nat \<Rightarrow> real" where
  "sq_err_sum a n i sa b m j sb =
     (\<Sum>k<bsize (snd sa) (snd sb).
        (elem a n i (fst sa + bidx (snd sa) k) - elem b m j (fst sb + bidx (snd sb) k))\<^sup>2)"

text \<open>
  Division of a tensor entry by a Python integer: no exception is raised for a zero
  divisor, the entry becomes NaN or infinite. \<open>None\<close> stands for such a non-finite value,
  which every later sum and product keeps.
\<close>

definition nan_div :: "real \<Rightarrow> nat \<Rightarrow> real option" where
  "nan_div s d = (if d = 0 then None else Some (s / real d))"

definition nan_mul :: "real \<Rightarrow> real option \<Rightarrow> real option" where
  "nan_mul a x = map_option ((*) a) x"

fun nan_sum :: "nat \<Rightarrow> (nat \<Rightarrow> real option) \<Rightarrow> real option" where
  "nan_sum 0 f = Some 0"
| "nan_sum (Suc n) f =
     (case nan_sum n f of
        None \<Rightarrow> None
      | Some a \<Rightarrow> (case f n of None \<Rightarrow> None | Some b \<Rightarrow> Some (a + b)))"

text \<open>\<open>th.round\<close>: to the nearest integer, a tie to the even one.\<close>

definition th_round :: "real \<Rightarrow> real" where
  "th_round x =
     (let f = \<lfloor>x\<rfloor>; d = x - of_int f in
      if d < 1 / 2 then of_int f
      else if 1 / 2 < d then of_int (f + 1)
      else if even f then of_int f
      else of_int (f + 1))"

text \<open>\<open>np.delete(xs, ds, axis=0)\<close>: the entries whose index is not in \<open>ds\<close>, in order.\<close>

definition np_delete :: "'a list \<Rightarrow> nat list \<Rightarrow> 'a list" where
  "np_delete xs ds = map (nth xs) (filter (\<lambda>i. i \<notin> set ds) [0..<length xs])"

text \<open>The first exception raised by a sequence of steps.\<close>

fun first_error :: "error option list \<Rightarrow> error option" where
  "first_error [] = None"
| "first_error (None # es) = first_error es"
| "first_error (Some e # es) = Some e"

subsection \<open>The four distance matrices (lines 370 to 393)\<close>

text \<open>
  Entry \<open>[n, i, j]\<close> of each matrix. The expert tensor \<open>acts\<close> gives the batch size, so row
  \<open>n\<close> of it is read as it is; the row of \<open>pred_acts\<close> is read through broadcasting.
  \<open>distance_matrix\<close> compares the slice \<open>0:-1\<close> and divides by
  \<open>num_of_elements_per_traj\<close>, the whole size of a trajectory of \<open>acts\<close>.
\<close>

definition distance_matrix :: "tensor3 \<Rightarrow> tensor3 \<Rightarrow> nat \<Rightarrow> nat \<Rightarrow> nat \<Rightarrow> real" where
  "distance_matrix acts pred n i j =
     sq_err_sum acts n i (py_slice (dim2 acts) 0 (dim2 acts - 1))
       pred (bidx (dim0 pred) n) j (py_slice (dim2 pred) 0 (dim2 pred - 1))
     / real (dim2 acts)"

definition distance_pos_matrix ::
  "config \<Rightarrow> tensor3 \<Rightarrow> tensor3 \<Rightarrow> nat \<Rightarrow> nat \<Rightarrow> nat \<Rightarrow> real option" where
  "distance_pos_matrix cfg acts pred n i j =
     nan_div
       (sq_err_sum acts n i (py_slice (dim2 acts) 0 (traj_size_pos_ctrl_pts cfg))
          pred (bidx (dim0 pred) n) j (py_slice (dim2 pred) 0 (traj_size_pos_ctrl_pts cfg)))
       (traj_size_pos_ctrl_pts cfg)"

definition distance_yaw_matrix ::
  "config \<Rightarrow> tensor3 \<Rightarrow> tensor3 \<Rightarrow> nat \<Rightarrow> nat \<Rightarrow> nat \<Rightarrow> real option" where
  "distance_yaw_matrix cfg acts pred n i j =
     nan_div
       (sq_err_sum acts n i
          (py_slice (dim2 acts) (traj_size_pos_ctrl_pts cfg)
             (traj_size_pos_ctrl_pts cfg + traj_size_yaw_ctrl_pts cfg))
          pred (bidx (dim0 pred) n) j
          (py_slice (dim2 pred) (traj_size_pos_ctrl_pts cfg)
             (traj_size_pos_ctrl_pts cfg + traj_size_yaw_ctrl_pts cfg)))
       (traj_size_yaw_ctrl_pts cfg)"

text \<open>
  The time entry: \<open>acts[:,i,-2]\<close> and \<open>pred_acts[:,j,-2]\<close> are vectors over the batch, and
  \<open>th.sum(..., dim=0)\<close> adds their squared differences over the batch; the one number is
  stored in every row \<open>n\<close>.
\<close>

definition distance_time_matrix :: "tensor3 \<Rightarrow> tensor3 \<Rightarrow> nat \<Rightarrow> nat \<Rightarrow> nat \<Rightarrow> real" where
  "distance_time_matrix acts pred n i j =
     (\<Sum>m<bsize (dim0 acts) (dim0 pred).
        (elem acts (bidx (dim0 acts) m) i (dim2 acts - 2)
         - elem pred (bidx (dim0 pred) m) j (dim2 pred - 2))\<^sup>2)"

text \<open>
  The exceptions of one pass through the loop body, in the order of the statements:
  indexing trajectory \<open>j\<close> of \<open>pred_acts\<close> (line 379), the index \<open>-2\<close> (lines 387, 388),
  then for each matrix the broadcast inside \<open>MSELoss\<close> and the store into the column
  \<open>[:, i, j]\<close> of \<open>batch_size\<close> entries.
\<close>

definition body_error :: "config \<Rightarrow> tensor3 \<Rightarrow> tensor3 \<Rightarrow> nat \<Rightarrow> nat \<Rightarrow> error option" where
  "body_error cfg acts pred i j =
     (let P = traj_size_pos_ctrl_pts cfg; Y = traj_size_yaw_ctrl_pts cfg;
          N = dim0 acts; L = dim2 acts; N' = dim0 pred; L' = dim2 pred in
      if dim1 pred \<le> j then Some IndexError
      else if L < 2 then Some IndexError
      else if L' < 2 then Some IndexError
      else if \<not> (broadcastable N N' \<and> broadcastable (L - 1) (L' - 1)) then Some RuntimeError
      else if \<not> (bsize N N' = N \<or> bsize N N' = 1) then Some RuntimeError
      else if \<not> broadcastable (snd (py_slice L 0 P)) (snd (py_slice L' 0 P))
        then Some RuntimeError
      else if \<not> broadcastable (snd (py_slice L P (P + Y))) (snd (py_slice L' P (P + Y)))
        then Some RuntimeError
      else None)"

definition distance_loop_error :: "config \<Rightarrow> tensor3 \<Rightarrow> tensor3 \<Rightarrow> error option" where
  "distance_loop_error cfg acts pred =
     first_error
       (map (\<lambda>(i, j). body_error cfg acts pred i j)
          (List.product [0..<dim1 acts] [0..<dim1 acts]))"

subsection \<open>The assignment solver\<close>

text \<open>
  Modelled from the spec: \<open>linear_sum_assignment\<close> is imported from \<open>scipy.optimize\<close> and
  is not part of the sources. The specification asks for a deterministic optimal
  assignment on the reduced matrix: every row is given one column, no column twice, and
  the total cost is least. The model searches all such column lists in lexicographic
  order and keeps the first of least cost. Which of several optimal assignments the
  library returns is not specified; the statement about permutations below therefore
  assumes that the optimum is unique. A matrix with more rows than columns (which the caller
  never builds) is solved for its columns and listed by row, as the library does. A
  non-finite entry makes the library raise \<open>ValueError\<close>.
\<close>

fun injections :: "nat \<Rightarrow> nat list \<Rightarrow> nat list list" where
  "injections 0 cs = [[]]"
| "injections (Suc r) cs =
     concat (map (\<lambda>c. map ((#) c) (injections r (removeAll c cs))) cs)"

definition assignment_cost :: "(nat \<Rightarrow> nat \<Rightarrow> real) \<Rightarrow> nat list \<Rightarrow> real" where
  "assignment_cost C cols = (\<Sum>r<length cols. C r (cols ! r))"

definition solve_rows :: "nat \<Rightarrow> nat \<Rightarrow> (nat \<Rightarrow> nat \<Rightarrow> real) \<Rightarrow> nat list" where
  "solve_rows R K C = arg_min_list (assignment_cost C) (injections R [0..<K])"

definition cost_invalid :: "nat \<Rightarrow> nat \<Rightarrow> (nat \<Rightarrow> nat \<Rightarrow> real option) \<Rightarrow> bool" where
  "cost_invalid R K C = list_ex (\<lambda>r. list_ex (\<lambda>j. C r j = None) [0..<K]) [0..<R]"

definition linear_sum_assignment ::
  "nat \<Rightarrow> nat \<Rightarrow> (nat \<Rightarrow> nat \<Rightarrow> real option) \<Rightarrow> error + (nat list \<times> nat list)" where
  "linear_sum_assignment R K C =
     (if cost_invalid R K C then Inl ValueError
      else if R \<le> K then Inr ([0..<R], solve_rows R K (\<lambda>r j. the (C r j)))
      else
        (let rs = solve_rows K R (\<lambda>j r. the (C r j));
             ps = sort_key fst (zip rs [0..<K])
         in Inr (map fst ps, map snd ps)))"

subsection \<open>The assignment matrix (lines 407 to 438)\<close>

text \<open>
  The rows deleted for batch item \<open>n\<close>: the experts whose last component rounds to \<open>-1\<close>.
\<close>

definition rows_to_delete :: "tensor3 \<Rightarrow> nat \<Rightarrow> nat list" where
  "rows_to_delete acts n =
     filter (\<lambda>i. th_round (elem acts n i (dim2 acts - 1)) = - 1) [0..<dim1 acts]"

text \<open>
  The pairs set to 1 for batch item \<open>n\<close>: the solver's pairs for the position matrix
  without the deleted rows, mapped back through \<open>map2RealRows\<close> and \<open>map2RealCols\<close>.
\<close>

definition item_assignment ::
  "config \<Rightarrow> tensor3 \<Rightarrow> tensor3 \<Rightarrow> nat \<Rightarrow> error + (nat \<times> nat) list" where
  "item_assignment cfg acts pred n =
     (let K = dim1 acts;
          map2RealRows = np_delete [0..<K] (rows_to_delete acts n);
          map2RealCols = [0..<K];
          cost_matrix = (\<lambda>r j. distance_pos_matrix cfg acts pred n (map2RealRows ! r) j)
      in case linear_sum_assignment (length map2RealRows) K cost_matrix of
           Inl e \<Rightarrow> Inl e
         | Inr (row_indexes, col_indexes) \<Rightarrow>
             Inr (map (\<lambda>(row_index, col_index).
                        (map2RealRows ! row_index, map2RealCols ! col_index))
                    (zip row_indexes col_indexes)))"

definition solver_loop_error :: "config \<Rightarrow> tensor3 \<Rightarrow> tensor3 \<Rightarrow> error option" where
  "solver_loop_error cfg acts pred =
     first_error
       (map (\<lambda>n. case item_assignment cfg acts pred n of Inl e \<Rightarrow> Some e | Inr _ \<Rightarrow> None)
          [0..<dim0 acts])"

text \<open>
  \<open>alpha_matrix\<close> is all ones when there is at most one trajectory per action; otherwise
  it starts as zeros and is set to 1 at the solver's pairs. (When the solver raises for an
  item, no entry of the item has been set, and the whole computation stops.)
\<close>

definition alpha_matrix :: "config \<Rightarrow> tensor3 \<Rightarrow> tensor3 \<Rightarrow> nat \<Rightarrow> nat \<Rightarrow> nat \<Rightarrow> real" where
  "alpha_matrix cfg acts pred n i j =
     (if 1 < dim1 acts then
        (case item_assignment cfg acts pred n of
           Inr ms \<Rightarrow> if (i, j) \<in> set ms then 1 else 0
         | Inl e \<Rightarrow> 0)
      else 1)"

definition col_assigned :: "config \<Rightarrow> tensor3 \<Rightarrow> tensor3 \<Rightarrow> nat \<Rightarrow> nat \<Rightarrow> real" where
  "col_assigned cfg acts pred n j =
     th_round (\<Sum>i<dim1 acts. alpha_matrix cfg acts pred n i j)"

definition col_not_assigned :: "config \<Rightarrow> tensor3 \<Rightarrow> tensor3 \<Rightarrow> nat \<Rightarrow> nat \<Rightarrow> real" where
  "col_not_assigned cfg acts pred n j =
     (if col_assigned cfg acts pred n j \<noteq> 0 then 0 else 1)"

subsection \<open>The aggregated losses (lines 469 to 512)\<close>

definition student_probs :: "tensor3 \<Rightarrow> nat \<Rightarrow> nat \<Rightarrow> real" where
  "student_probs pred n j = elem pred n j (dim2 pred - 1)"

definition norm_constant :: "tensor3 \<Rightarrow> real" where
  "norm_constant acts = 1 / real (dim0 acts * dim1 acts)"

definition pos_yaw_time_loss :: "config \<Rightarrow> tensor3 \<Rightarrow> tensor3 \<Rightarrow> real" where
  "pos_yaw_time_loss cfg acts pred =
     norm_constant acts *
       (\<Sum>n<dim0 acts. \<Sum>i<dim1 acts. \<Sum>j<dim1 acts.
          alpha_matrix cfg acts pred n i j * distance_matrix acts pred n i j)"

definition prob_loss_value :: "config \<Rightarrow> tensor3 \<Rightarrow> tensor3 \<Rightarrow> real" where
  "prob_loss_value cfg acts pred =
     norm_constant acts *
       (\<Sum>n<dim0 acts. \<Sum>j<dim1 acts.
          col_assigned cfg acts pred n j * (student_probs pred n j - 1)\<^sup>2)
     + (\<Sum>n<dim0 acts. \<Sum>j<dim1 acts.
          col_not_assigned cfg acts pred n j * (student_probs pred n j - (- 1))\<^sup>2)"

definition nan_weighted ::
  "config \<Rightarrow> tensor3 \<Rightarrow> tensor3 \<Rightarrow> (nat \<Rightarrow> nat \<Rightarrow> nat \<Rightarrow> real option) \<Rightarrow> real option" where
  "nan_weighted cfg acts pred D =
     nan_mul (norm_constant acts)
       (nan_sum (dim0 acts) (\<lambda>n. nan_sum (dim1 acts) (\<lambda>i. nan_sum (dim1 acts) (\<lambda>j.
          nan_mul (alpha_matrix cfg acts pred n i j) (D n i j)))))"

definition pos_loss_value :: "config \<Rightarrow> tensor3 \<Rightarrow> tensor3 \<Rightarrow> real option" where
  "pos_loss_value cfg acts pred = nan_weighted cfg acts pred (distance_pos_matrix cfg acts pred)"

definition yaw_loss_value :: "config \<Rightarrow> tensor3 \<Rightarrow> tensor3 \<Rightarrow> real option" where
  "yaw_loss_value cfg acts pred = nan_weighted cfg acts pred (distance_yaw_matrix cfg acts pred)"

definition time_loss_value :: "config \<Rightarrow> tensor3 \<Rightarrow> tensor3 \<Rightarrow> real" where
  "time_loss_value cfg acts pred =
     norm_constant acts *
       (\<Sum>n<dim0 acts. \<Sum>i<dim1 acts. \<Sum>j<dim1 acts.
          alpha_matrix cfg acts pred n i j * distance_time_matrix acts pred n i j)"

text \<open>
  The whole computation, statement by statement: the loop that fills the distance
  matrices, the solver loop (entered only when \<open>num_of_traj_per_action > 1\<close>),
  \<open>pred_acts[:,:,-1]\<close>, the assertions on the shapes, \<open>norm_constant\<close> (a Python division of
  integers), and the use of \<open>col_assigned\<close>, a name that is bound only inside the branch
  \<open>num_of_traj_per_action > 1\<close>.
\<close>

definition calculate_loss :: "config \<Rightarrow> tensor3 \<Rightarrow> tensor3 \<Rightarrow> error + loss_stats" where
  "calculate_loss cfg acts pred =
     (case distance_loop_error cfg acts pred of
        Some e \<Rightarrow> Inl e
      | None \<Rightarrow>
          (case (if 1 < dim1 acts then solver_loop_error cfg acts pred else None) of
             Some e \<Rightarrow> Inl e
           | None \<Rightarrow>
               if dim2 pred = 0 then Inl IndexError
               else if dim0 acts \<noteq> dim0 pred then Inl AssertionError
               else if dim1 acts \<noteq> dim1 pred then Inl AssertionError
               else if dim0 acts * dim1 acts = 0 then Inl ZeroDivisionError
               else if \<not> 1 < dim1 acts then Inl UnboundLocalError
               else
                 Inr \<lparr>loss = pos_yaw_time_loss cfg acts pred
                              + weight_prob cfg * prob_loss_value cfg acts pred,
                      pos_loss = pos_loss_value cfg acts pred,
                      yaw_loss = yaw_loss_value cfg acts pred,
                      prob_loss = prob_loss_value cfg acts pred,
                      time_loss = time_loss_value cfg acts pred\<rparr>))"

subsection \<open>Notions used to state the properties\<close>

text \<open>An expert row is deleted (invalid) when its last component rounds to \<open>-1\<close> (line 422).\<close>

definition expert_invalid :: "tensor3 \<Rightarrow> nat \<Rightarrow> nat \<Rightarrow> bool" where
  "expert_invalid acts n i = (th_round (elem acts n i (dim2 acts - 1)) = - 1)"

definition valid_rows :: "tensor3 \<Rightarrow> nat \<Rightarrow> nat list" where
  "valid_rows acts n = filter (\<lambda>i. \<not> expert_invalid acts n i) [0..<dim1 acts]"

text \<open>The reduced position matrix of item \<open>n\<close> and the column list the solver returns for it.\<close>

definition reduced_cost :: "config \<Rightarrow> tensor3 \<Rightarrow> tensor3 \<Rightarrow> nat \<Rightarrow> nat \<Rightarrow> nat \<Rightarrow> real" where
  "reduced_cost cfg acts pred n r j =
     the (distance_pos_matrix cfg acts pred n (valid_rows acts n ! r) j)"

definition item_cols :: "config \<Rightarrow> tensor3 \<Rightarrow> tensor3 \<Rightarrow> nat \<Rightarrow> nat list" where
  "item_cols cfg acts pred n =
     solve_rows (length (valid_rows acts n)) (dim1 acts) (reduced_cost cfg acts pred n)"

text \<open>The expert and the predicted tensor have one shape.\<close>

definition same_shape :: "tensor3 \<Rightarrow> tensor3 \<Rightarrow> bool" where
  "same_shape acts pred =
     (dim0 acts = dim0 pred \<and> dim1 acts = dim1 pred \<and> dim2 acts = dim2 pred)"

subsection \<open>The loss as the specification words it\<close>

text \<open>
  A predicted slot is assigned when some expert row is matched to it; the matched cost of
  a metric is the normalised sum of the costs of the matched pairs; the existence loss
  averages the assigned slots' squared distance to \<open>+1\<close> and adds, without the
  normalisation, the unassigned slots' squared distance to \<open>-1\<close>.
\<close>

definition slot_assigned :: "config \<Rightarrow> tensor3 \<Rightarrow> tensor3 \<Rightarrow> nat \<Rightarrow> nat \<Rightarrow> real" where
  "slot_assigned cfg acts pred n j =
     (if list_ex (\<lambda>i. alpha_matrix cfg acts pred n i j = 1) [0..<dim1 acts] then 1 else 0)"

definition matched_cost ::
  "config \<Rightarrow> tensor3 \<Rightarrow> tensor3 \<Rightarrow> (nat \<Rightarrow> nat \<Rightarrow> nat \<Rightarrow> real) \<Rightarrow> real" where
  "matched_cost cfg acts pred cost =
     1 / (real (dim0 acts) * real (dim1 acts)) *
       (\<Sum>n<dim0 acts. \<Sum>i<dim1 acts. \<Sum>j<dim1 acts.
          alpha_matrix cfg acts pred n i j * cost n i j)"

definition spec_prob_loss :: "config \<Rightarrow> tensor3 \<Rightarrow> tensor3 \<Rightarrow> real" where
  "spec_prob_loss cfg acts pred =
     1 / (real (dim0 acts) * real (dim1 acts)) *
       (\<Sum>n<dim0 acts. \<Sum>j<dim1 acts.
          slot_assigned cfg acts pred n j * (elem pred n j (dim2 pred - 1) - 1)\<^sup>2)
     + (\<Sum>n<dim0 acts. \<Sum>j<dim1 acts.
          (1 - slot_assigned cfg acts pred n j) * (elem pred n j (dim2 pred - 1) + 1)\<^sup>2)"

subsection \<open>Concrete inputs\<close>

text \<open>
  One item with two experts, both valid, four position and one yaw control point; the
  position costs are \<open>[[1, 4], [3, 2]]\<close>.
\<close>

definition cfg_ex :: config where
  "cfg_ex = \<lparr>traj_size_pos_ctrl_pts = 4, traj_size_yaw_ctrl_pts = 1, weight_prob = 1 / 2\<rparr>"

definition acts_ex :: tensor3 where
  "acts_ex = tensor [[[0, 0, 0, 0, 1, 2, 1], [4, 2, 2, 0, 1, 2, 1]]]"

definition pred_ex :: tensor3 where
  "pred_ex = tensor [[[2, 0, 0, 0, 1, 2, 1], [4, 0, 0, 0, 1, 2, 0]]]"

text \<open>
  A configuration with one position and one yaw control point (trajectories of four
  entries), and two batches of two items that differ only in the time entry of expert 0
  of item 1.
\<close>

definition cfg_small :: config where
  "cfg_small = \<lparr>traj_size_pos_ctrl_pts = 1, traj_size_yaw_ctrl_pts = 1, weight_prob = 1 / 2\<rparr>"

definition acts_time :: tensor3 where
  "acts_time = tensor [[[0, 0, 0, 1], [0, 0, 0, 1]], [[0, 0, 3, 1], [0, 0, 0, 1]]]"

definition acts_time_b :: tensor3 where
  "acts_time_b = tensor [[[0, 0, 0, 1], [0, 0, 0, 1]], [[0, 0, 0, 1], [0, 0, 0, 1]]]"

definition pred_time :: tensor3 where
  "pred_time = tensor [[[0, 0, 0, 1], [0, 0, 0, 1]], [[0, 0, 0, 1], [0, 0, 0, 1]]]"

text \<open>One item, the expert all zero but valid, the prediction off by one in each entry compared.\<close>

definition acts_full :: tensor3 where
  "acts_full = tensor [[[0, 0, 0, 1], [0, 0, 0, 1]]]"

definition pred_full :: tensor3 where
  "pred_full = tensor [[[1, 1, 1, 1], [0, 0, 0, 1]]]"

text \<open>A batch with one trajectory per action, the expert valid.\<close>

definition acts_one :: tensor3 where
  "acts_one = tensor [[[0, 0, 0, 0, 1, 2, 1]]]"

definition pred_one :: tensor3 where
  "pred_one = tensor [[[2, 0, 0, 0, 1, 2, 1]]]"

text \<open>A prediction with three trajectories for the one item, against two experts.\<close>

definition pred_three :: tensor3 where
  "pred_three =
     tensor [[[2, 0, 0, 0, 1, 2, 1], [4, 0, 0, 0, 1, 2, 0], [0, 0, 0, 0, 1, 2, 0]]]"

text \<open>
  Trajectories of eight entries, one more than \<open>P + Y + 2 = 7\<close> for \<open>cfg_ex\<close>.
\<close>

definition acts_long :: tensor3 where
  "acts_long = tensor [[[0, 0, 0, 0, 1, 2, 9, 1], [4, 2, 2, 0, 1, 2, 9, 1]]]"

definition pred_long :: tensor3 where
  "pred_long = tensor [[[2, 0, 0, 0, 1, 2, 9, 1], [4, 0, 0, 0, 1, 2, 9, 0]]]"

text \<open>No yaw control points: trajectories of \<open>P + Y + 2 = 6\<close> entries.\<close>

definition cfg_noyaw :: config where
  "cfg_noyaw = \<lparr>traj_size_pos_ctrl_pts = 4, traj_size_yaw_ctrl_pts = 0, weight_prob = 1 / 2\<rparr>"

definition acts_noyaw :: tensor3 where
  "acts_noyaw = tensor [[[0, 0, 0, 0, 2, 1], [4, 2, 2, 0, 2, 1]]]"

definition pred_noyaw :: tensor3 where
  "pred_noyaw = tensor [[[2, 0, 0, 0, 2, 1], [4, 0, 0, 0, 2, 0]]]"

text \<open>
  Invalid experts (last entry \<open>-1\<close>): one trajectory per action, and two per action with
  both invalid.
\<close>

definition acts_inv1 :: tensor3 where
  "acts_inv1 = tensor [[[0, 0, 0, 0, 1, 2, - 1]]]"

definition acts_allinv :: tensor3 where
  "acts_allinv = tensor [[[0, 0, 0, 0, 1, 2, - 1], [4, 2, 2, 0, 1, 2, - 1]]]"

subsection \<open>Permuting the predicted trajectories of one item\<close>

text \<open>
  After the permutation, slot \<open>j\<close> of item \<open>n0\<close> holds the trajectory (with its existence
  score) that slot \<open>p j\<close> held; the other items are unchanged.
\<close>

definition slot_of :: "nat \<Rightarrow> (nat \<Rightarrow> nat) \<Rightarrow> nat \<Rightarrow> nat \<Rightarrow> nat" where
  "slot_of n0 p n j = (if n = n0 then p j else j)"

definition permute_item :: "tensor3 \<Rightarrow> nat \<Rightarrow> (nat \<Rightarrow> nat) \<Rightarrow> tensor3" where
  "permute_item pred n0 p = pred\<lparr>elem := (\<lambda>n j k. elem pred n (slot_of n0 p n j) k)\<rparr>"

text \<open>The exchange of two slots.\<close>

definition swap2 :: "nat \<Rightarrow> nat" where
  "swap2 j = 1 - j"

text \<open>
  The solver's matching of item \<open>n\<close> is the only one of least position cost: every other
  one-to-one column list for the valid rows costs strictly more.
\<close>

definition unique_optimum :: "config \<Rightarrow> tensor3 \<Rightarrow> tensor3 \<Rightarrow> nat \<Rightarrow> bool" where
  "unique_optimum cfg acts pred n =
     list_all
       (\<lambda>cols. cols = item_cols cfg acts pred n
          \<or> assignment_cost (reduced_cost cfg acts pred n) (item_cols cfg acts pred n)
              < assignment_cost (reduced_cost cfg acts pred n) cols)
       (injections (length (valid_rows acts n)) [0..<dim1 acts])"

text \<open>
  Two experts with equal positions and different yaw, and predictions equal to them: both
  matchings have position cost 0.
\<close>

definition acts_tie :: tensor3 where
  "acts_tie = tensor [[[0, 0, 0, 1], [0, 5, 0, 1]]]"

definition pred_tie :: tensor3 where
  "pred_tie = tensor [[[0, 0, 0, 1], [0, 5, 0, 1]]]"

section \<open>Basic facts about the operations\<close>

lemma bidx_less [simp]: "k < sz \<Longrightarrow> bidx sz k = k"
  by (auto simp: bidx_def)

lemma first_error_None: "first_error es = None \<longleftrightarrow> (\<forall>e\<in>set es. e = None)"
  by (induction es rule: first_error.induct) auto

lemma nan_sum_Some:
  "(\<And>k. k < n \<Longrightarrow> f k = Some (g k)) \<Longrightarrow> nan_sum n f = Some (\<Sum>k<n. g k)"
  by (induction n) auto

lemma nan_sum_None: "k < n \<Longrightarrow> f k = None \<Longrightarrow> nan_sum n f = None"
proof (induction n)
  case 0
  then show ?case by simp
next
  case (Suc n)
  show ?case
  proof (cases "k = n")
    case True
    with Suc.prems show ?thesis by (simp split: option.splits)
  next
    case False
    with Suc.prems have "k < n" by simp
    with Suc have "nan_sum n f = None" by simp
    then show ?thesis by simp
  qed
qed

lemma th_round_of_int [simp]: "th_round (of_int z) = of_int z"
  by (simp add: th_round_def)

lemma th_round_of_nat [simp]: "th_round (of_nat m) = of_nat m"
  using th_round_of_int [of "int m"] by simp

lemma th_round_0_1 [simp]: "th_round 0 = 0" "th_round 1 = 1"
  using th_round_of_int [of 0] th_round_of_int [of 1] by simp_all

lemma set_injections:
  "set (injections r cs) = {xs. length xs = r \<and> distinct xs \<and> set xs \<subseteq> set cs}"
proof (induction r arbitrary: cs)
  case 0
  show ?case by auto
next
  case (Suc r)
  show ?case
  proof (intro set_eqI iffI)
    fix xs
    assume "xs \<in> set (injections (Suc r) cs)"
    then obtain c ys where c: "c \<in> set cs" and ys: "ys \<in> set (injections r (removeAll c cs))"
      and xs: "xs = c # ys"
      by auto
    from ys Suc.IH have "length ys = r" "distinct ys" "set ys \<subseteq> set cs - {c}"
      by auto
    with c xs show "xs \<in> {xs. length xs = Suc r \<and> distinct xs \<and> set xs \<subseteq> set cs}"
      by auto
  next
    fix xs
    assume "xs \<in> {xs. length xs = Suc r \<and> distinct xs \<and> set xs \<subseteq> set cs}"
    then obtain c ys where xs: "xs = c # ys" and l: "length ys = r" and d: "distinct (c # ys)"
      and s: "set (c # ys) \<subseteq> set cs"
      by (cases xs) auto
    from l d s have "ys \<in> set (injections r (removeAll c cs))"
      unfolding Suc.IH by auto
    with s xs show "xs \<in> set (injections (Suc r) cs)"
      by auto
  qed
qed

lemma injections_upt_nonempty: "R \<le> K \<Longrightarrow> injections R [0..<K] \<noteq> []"
proof -
  assume "R \<le> K"
  then have "[0..<R] \<in> set (injections R [0..<K])"
    unfolding set_injections by auto
  then show ?thesis by auto
qed

lemma solve_rows_props:
  assumes "R \<le> K"
  shows "length (solve_rows R K C) = R" "distinct (solve_rows R K C)"
    "set (solve_rows R K C) \<subseteq> {..<K}"
proof -
  have "solve_rows R K C \<in> set (injections R [0..<K])"
    unfolding solve_rows_def using assms by (intro arg_min_list_in injections_upt_nonempty)
  then show "length (solve_rows R K C) = R" "distinct (solve_rows R K C)"
    "set (solve_rows R K C) \<subseteq> {..<K}"
    unfolding set_injections by auto
qed

lemma solve_rows_optimal:
  assumes "length cols = R" "distinct cols" "set cols \<subseteq> {..<K}"
  shows "assignment_cost C (solve_rows R K C) \<le> assignment_cost C cols"
proof -
  have in_set: "cols \<in> set (injections R [0..<K])"
    unfolding set_injections using assms by auto
  then have ne: "injections R [0..<K] \<noteq> []" by auto
  have "assignment_cost C (solve_rows R K C) = Min (assignment_cost C ` set (injections R [0..<K]))"
    unfolding solve_rows_def by (rule f_arg_min_list_f [OF ne])
  also have "\<dots> \<le> assignment_cost C cols"
    using in_set by (intro Min_le) auto
  finally show ?thesis .
qed

lemma np_delete_upt: "np_delete [0..<K] ds = filter (\<lambda>i. i \<notin> set ds) [0..<K]"
  unfolding np_delete_def by (auto intro!: map_idI)

lemma kept_rows:
  "np_delete [0..<dim1 acts] (rows_to_delete acts n)
     = filter (\<lambda>i. th_round (elem acts n i (dim2 acts - 1)) \<noteq> - 1) [0..<dim1 acts]"
  unfolding np_delete_upt rows_to_delete_def by (auto intro: filter_cong)

lemma cost_invalid_iff: "cost_invalid R K C \<longleftrightarrow> (\<exists>r<R. \<exists>j<K. C r j = None)"
  unfolding cost_invalid_def list_ex_iff by (simp add: Bex_def)

lemma nan_div_None [simp]: "nan_div s d = None \<longleftrightarrow> d = 0"
  by (simp add: nan_div_def)

lemma distance_pos_matrix_None [simp]:
  "distance_pos_matrix cfg acts pred n i j = None \<longleftrightarrow> traj_size_pos_ctrl_pts cfg = 0"
  by (simp add: distance_pos_matrix_def)

lemma distance_yaw_matrix_None [simp]:
  "distance_yaw_matrix cfg acts pred n i j = None \<longleftrightarrow> traj_size_yaw_ctrl_pts cfg = 0"
  by (simp add: distance_yaw_matrix_def)

lemma zip_rows_cols:
  assumes "length cols = length rows" "set cols \<subseteq> {..<K}"
  shows "map (\<lambda>(r, c). (rows ! r, [0..<K] ! c)) (zip [0..<length rows] cols) = zip rows cols"
proof (rule nth_equalityI)
  show "length (map (\<lambda>(r, c). (rows ! r, [0..<K] ! c)) (zip [0..<length rows] cols)) = length (zip rows cols)"
    using assms by simp
next
  fix i
  assume "i < length (map (\<lambda>(r, c). (rows ! r, [0..<K] ! c)) (zip [0..<length rows] cols))"
  then have i: "i < length rows" "i < length cols" by auto
  then have "cols ! i < K" using assms(2) by (auto simp: subset_iff)
  with i show "map (\<lambda>(r, c). (rows ! r, [0..<K] ! c)) (zip [0..<length rows] cols) ! i = zip rows cols ! i"
    by simp
qed

text \<open>The item's reduced cost matrix, and the form of a successful assignment.\<close>

lemma item_assignment_Inr:
  assumes "item_assignment cfg acts pred n = Inr ms"
  defines "rows \<equiv> filter (\<lambda>i. th_round (elem acts n i (dim2 acts - 1)) \<noteq> - 1) [0..<dim1 acts]"
  shows "ms = zip rows (solve_rows (length rows) (dim1 acts)
                 (\<lambda>r j. the (distance_pos_matrix cfg acts pred n (rows ! r) j)))"
    and "rows = [] \<or> dim1 acts = 0 \<or> traj_size_pos_ctrl_pts cfg \<noteq> 0"
proof -
  let ?K = "dim1 acts"
  let ?C = "\<lambda>r j. distance_pos_matrix cfg acts pred n (rows ! r) j"
  let ?best = "solve_rows (length rows) ?K (\<lambda>r j. the (?C r j))"
  have len: "length rows \<le> ?K"
    unfolding rows_def using length_filter_le [of _ "[0..<?K]"] by simp
  have valid: "\<not> cost_invalid (length rows) ?K ?C"
    using assms(1) unfolding item_assignment_def Let_def kept_rows rows_def [symmetric]
      linear_sum_assignment_def
    by (auto split: if_splits)
  then show "rows = [] \<or> dim1 acts = 0 \<or> traj_size_pos_ctrl_pts cfg \<noteq> 0"
    by (auto simp: cost_invalid_iff)
  have "ms = map (\<lambda>(r, c). (rows ! r, [0..<?K] ! c)) (zip [0..<length rows] ?best)"
    using assms(1) valid len
    unfolding item_assignment_def Let_def kept_rows rows_def [symmetric] linear_sum_assignment_def
    by simp
  also have "\<dots> = zip rows ?best"
    using solve_rows_props [OF len] by (intro zip_rows_cols) auto
  finally show "ms = zip rows ?best" .
qed

lemma item_assignment_ok:
  assumes "traj_size_pos_ctrl_pts cfg \<noteq> 0"
  shows "\<exists>ms. item_assignment cfg acts pred n = Inr ms"
proof -
  have "\<not> cost_invalid R K (\<lambda>r j. distance_pos_matrix cfg acts pred n (f r) j)" for R K f
    using assms by (simp add: cost_invalid_iff)
  then show ?thesis
    unfolding item_assignment_def Let_def linear_sum_assignment_def
    by (simp split: prod.splits)
qed

section \<open>The assignment matrix\<close>

lemma valid_rows_kept:
  "np_delete [0..<dim1 acts] (rows_to_delete acts n) = valid_rows acts n"
  unfolding kept_rows valid_rows_def expert_invalid_def ..

lemma valid_rows_props:
  "distinct (valid_rows acts n)" "length (valid_rows acts n) \<le> dim1 acts"
  "set (valid_rows acts n) = {i. i < dim1 acts \<and> \<not> expert_invalid acts n i}"
proof -
  show "distinct (valid_rows acts n)" by (simp add: valid_rows_def)
  show "length (valid_rows acts n) \<le> dim1 acts"
    unfolding valid_rows_def using length_filter_le [of _ "[0..<dim1 acts]"] by simp
  show "set (valid_rows acts n) = {i. i < dim1 acts \<and> \<not> expert_invalid acts n i}"
    by (auto simp: valid_rows_def)
qed

lemma item_cols_props:
  "length (item_cols cfg acts pred n) = length (valid_rows acts n)"
  "distinct (item_cols cfg acts pred n)"
  "set (item_cols cfg acts pred n) \<subseteq> {..<dim1 acts}"
  unfolding item_cols_def by (rule solve_rows_props [OF valid_rows_props(2)])+

lemma item_assignment_zip:
  assumes "item_assignment cfg acts pred n = Inr ms"
  shows "ms = zip (valid_rows acts n) (item_cols cfg acts pred n)"
  using item_assignment_Inr(1) [OF assms]
  unfolding item_cols_def reduced_cost_def valid_rows_def expert_invalid_def .

lemma alpha_matrix_zip:
  assumes "1 < dim1 acts" "item_assignment cfg acts pred n = Inr ms"
  shows "alpha_matrix cfg acts pred n i j =
           (if (i, j) \<in> set (zip (valid_rows acts n) (item_cols cfg acts pred n)) then 1 else 0)"
  using assms item_assignment_zip [OF assms(2)] by (simp add: alpha_matrix_def)

lemma alpha_matrix_one_iff:
  assumes "1 < dim1 acts" "item_assignment cfg acts pred n = Inr ms"
  shows "alpha_matrix cfg acts pred n i j = 1 \<longleftrightarrow>
           (\<exists>r<length (valid_rows acts n). valid_rows acts n ! r = i \<and> item_cols cfg acts pred n ! r = j)"
  unfolding alpha_matrix_zip [OF assms] using item_cols_props(1) [of cfg acts pred n]
  by (auto simp: in_set_zip)

lemma alpha_matrix_01:
  assumes "1 < dim1 acts" "item_assignment cfg acts pred n = Inr ms"
  shows "alpha_matrix cfg acts pred n i j = 0 \<or> alpha_matrix cfg acts pred n i j = 1"
  unfolding alpha_matrix_zip [OF assms] by simp

lemma alpha_matrix_one_range:
  assumes "1 < dim1 acts" "item_assignment cfg acts pred n = Inr ms"
    and "alpha_matrix cfg acts pred n i j = 1"
  shows "i < dim1 acts" "\<not> expert_invalid acts n i" "j < dim1 acts"
proof -
  from assms obtain r where r: "r < length (valid_rows acts n)" "valid_rows acts n ! r = i"
      "item_cols cfg acts pred n ! r = j"
    unfolding alpha_matrix_one_iff [OF assms(1,2)] by blast
  then have "i \<in> set (valid_rows acts n)" by (auto simp: in_set_conv_nth)
  then show "i < dim1 acts" "\<not> expert_invalid acts n i"
    unfolding valid_rows_props(3) by auto
  from r have "j \<in> set (item_cols cfg acts pred n)"
    using item_cols_props(1) [of cfg acts pred n] by (auto simp: in_set_conv_nth)
  then show "j < dim1 acts" using item_cols_props(3) [of cfg acts pred n] by auto
qed

lemma alpha_matrix_row_unique:
  assumes "1 < dim1 acts" "item_assignment cfg acts pred n = Inr ms"
    and "alpha_matrix cfg acts pred n i j = 1" "alpha_matrix cfg acts pred n i j' = 1"
  shows "j = j'"
proof -
  from assms(3) obtain r where r: "r < length (valid_rows acts n)" "valid_rows acts n ! r = i"
      "item_cols cfg acts pred n ! r = j"
    unfolding alpha_matrix_one_iff [OF assms(1,2)] by blast
  from assms(4) obtain r' where r': "r' < length (valid_rows acts n)" "valid_rows acts n ! r' = i"
      "item_cols cfg acts pred n ! r' = j'"
    unfolding alpha_matrix_one_iff [OF assms(1,2)] by blast
  from r(2) r'(2) have "valid_rows acts n ! r = valid_rows acts n ! r'" by simp
  then have "r = r'"
    using nth_eq_iff_index_eq [OF valid_rows_props(1) r(1) r'(1)] by simp
  with r(3) r'(3) show ?thesis by simp
qed

lemma alpha_matrix_col_unique:
  assumes "1 < dim1 acts" "item_assignment cfg acts pred n = Inr ms"
    and "alpha_matrix cfg acts pred n i j = 1" "alpha_matrix cfg acts pred n i' j = 1"
  shows "i = i'"
proof -
  from assms(3) obtain r where r: "r < length (valid_rows acts n)" "valid_rows acts n ! r = i"
      "item_cols cfg acts pred n ! r = j"
    unfolding alpha_matrix_one_iff [OF assms(1,2)] by blast
  from assms(4) obtain r' where r': "r' < length (valid_rows acts n)" "valid_rows acts n ! r' = i'"
      "item_cols cfg acts pred n ! r' = j"
    unfolding alpha_matrix_one_iff [OF assms(1,2)] by blast
  from r(3) r'(3) have "item_cols cfg acts pred n ! r = item_cols cfg acts pred n ! r'" by simp
  moreover have "r < length (item_cols cfg acts pred n)" "r' < length (item_cols cfg acts pred n)"
    using r(1) r'(1) by (simp_all add: item_cols_props(1))
  ultimately have "r = r'"
    using nth_eq_iff_index_eq [OF item_cols_props(2)] by blast
  with r(2) r'(2) show ?thesis by simp
qed

lemma alpha_matrix_row_exists:
  assumes "1 < dim1 acts" "item_assignment cfg acts pred n = Inr ms"
    and "i < dim1 acts" "\<not> expert_invalid acts n i"
  shows "\<exists>j<dim1 acts. alpha_matrix cfg acts pred n i j = 1"
proof -
  from assms(3,4) have "i \<in> set (valid_rows acts n)"
    unfolding valid_rows_props(3) by simp
  then obtain r where r: "r < length (valid_rows acts n)" "valid_rows acts n ! r = i"
    by (auto simp: in_set_conv_nth)
  then have one: "alpha_matrix cfg acts pred n i (item_cols cfg acts pred n ! r) = 1"
    unfolding alpha_matrix_one_iff [OF assms(1,2)] by blast
  from alpha_matrix_one_range(3) [OF assms(1,2) one] one show ?thesis by blast
qed

lemma alpha_matrix_invalid:
  assumes "1 < dim1 acts" "expert_invalid acts n i"
  shows "alpha_matrix cfg acts pred n i j = 0"
proof (cases "item_assignment cfg acts pred n")
  case (Inl e)
  with assms(1) show ?thesis by (simp add: alpha_matrix_def)
next
  case (Inr ms)
  from alpha_matrix_one_range(2) [OF assms(1) Inr, of i j] assms(2)
  have "alpha_matrix cfg acts pred n i j \<noteq> 1" by blast
  with alpha_matrix_01 [OF assms(1) Inr, of i j] show ?thesis by simp
qed

text \<open>The sum of a column of the assignment matrix is 0 or 1.\<close>

lemma alpha_matrix_col_sum:
  assumes "1 < dim1 acts" "item_assignment cfg acts pred n = Inr ms"
  shows "(\<Sum>i<dim1 acts. alpha_matrix cfg acts pred n i j)
           = (if \<exists>i<dim1 acts. alpha_matrix cfg acts pred n i j = 1 then 1 else 0)"
proof (cases "\<exists>i<dim1 acts. alpha_matrix cfg acts pred n i j = 1")
  case True
  then obtain i0 where i0: "i0 < dim1 acts" "alpha_matrix cfg acts pred n i0 j = 1" by blast
  have "alpha_matrix cfg acts pred n i j = (if i = i0 then 1 else 0)" for i
  proof (cases "i = i0")
    case True
    with i0(2) show ?thesis by simp
  next
    case False
    with alpha_matrix_col_unique [OF assms _ i0(2), of i]
    have "alpha_matrix cfg acts pred n i j \<noteq> 1" by blast
    with alpha_matrix_01 [OF assms, of i j] False show ?thesis by simp
  qed
  then have "(\<Sum>i<dim1 acts. alpha_matrix cfg acts pred n i j)
               = (\<Sum>i<dim1 acts. if i = i0 then 1 else 0)"
    by simp
  also have "\<dots> = 1" using i0(1) by simp
  finally show ?thesis using True by simp
next
  case False
  then have "alpha_matrix cfg acts pred n i j = 0" if "i < dim1 acts" for i
    using alpha_matrix_01 [OF assms, of i j] that by blast
  then have "(\<Sum>i<dim1 acts. alpha_matrix cfg acts pred n i j) = 0" by simp
  with False show ?thesis by simp
qed

section \<open>When the computation returns\<close>

lemma distance_loop_error_None:
  "distance_loop_error cfg acts pred = None \<longleftrightarrow>
     (\<forall>i<dim1 acts. \<forall>j<dim1 acts. body_error cfg acts pred i j = None)"
  unfolding distance_loop_error_def first_error_None by auto

lemma body_error_same_shape:
  assumes "same_shape acts pred" "2 \<le> dim2 acts" "j < dim1 acts"
  shows "body_error cfg acts pred i j = None"
  using assms by (simp add: body_error_def same_shape_def broadcastable_def bsize_def Let_def)

lemma distance_loop_error_same_shape:
  assumes "same_shape acts pred" "2 \<le> dim2 acts"
  shows "distance_loop_error cfg acts pred = None"
  unfolding distance_loop_error_None using body_error_same_shape [OF assms] by simp

lemma distance_loop_error_NoneD:
  assumes "distance_loop_error cfg acts pred = None" "0 < dim1 acts"
  shows "2 \<le> dim2 acts" "2 \<le> dim2 pred" "dim1 acts \<le> dim1 pred"
proof -
  have b: "body_error cfg acts pred 0 j = None" if "j < dim1 acts" for j
    using assms that unfolding distance_loop_error_None by blast
  from b [of 0] assms(2) show "2 \<le> dim2 acts" "2 \<le> dim2 pred"
    by (auto simp: body_error_def Let_def split: if_splits)
  from b [of "dim1 acts - 1"] assms(2) show "dim1 acts \<le> dim1 pred"
    by (auto simp: body_error_def Let_def split: if_splits)
qed

lemma solver_loop_error_None:
  "solver_loop_error cfg acts pred = None \<longleftrightarrow>
     (\<forall>n<dim0 acts. \<exists>ms. item_assignment cfg acts pred n = Inr ms)"
proof -
  have *: "(case x of Inl e \<Rightarrow> Some e | Inr _ \<Rightarrow> None) = None \<longleftrightarrow> (\<exists>ms. x = Inr ms)"
    for x :: "error + (nat \<times> nat) list"
    by (cases x) auto
  have "solver_loop_error cfg acts pred = None \<longleftrightarrow>
      (\<forall>n\<in>set [0..<dim0 acts].
         (case item_assignment cfg acts pred n of Inl e \<Rightarrow> Some e | Inr _ \<Rightarrow> None) = None)"
    unfolding solver_loop_error_def first_error_None by auto
  also have "\<dots> \<longleftrightarrow> (\<forall>n\<in>set [0..<dim0 acts]. \<exists>ms. item_assignment cfg acts pred n = Inr ms)"
    unfolding * ..
  also have "\<dots> \<longleftrightarrow> (\<forall>n<dim0 acts. \<exists>ms. item_assignment cfg acts pred n = Inr ms)"
    by (metis atLeastLessThan_iff set_upt zero_le)
  finally show ?thesis .
qed

lemma solver_loop_error_pos:
  "traj_size_pos_ctrl_pts cfg \<noteq> 0 \<Longrightarrow> solver_loop_error cfg acts pred = None"
  unfolding solver_loop_error_None using item_assignment_ok by blast

text \<open>When the computation returns, and what it returns then.\<close>

lemma calculate_loss_Inr_iff:
  "calculate_loss cfg acts pred = Inr r \<longleftrightarrow>
     distance_loop_error cfg acts pred = None \<and> solver_loop_error cfg acts pred = None
     \<and> dim0 acts = dim0 pred \<and> dim1 acts = dim1 pred \<and> 0 < dim0 acts \<and> 1 < dim1 acts
     \<and> r = \<lparr>loss = pos_yaw_time_loss cfg acts pred + weight_prob cfg * prob_loss_value cfg acts pred,
            pos_loss = pos_loss_value cfg acts pred,
            yaw_loss = yaw_loss_value cfg acts pred,
            prob_loss = prob_loss_value cfg acts pred,
            time_loss = time_loss_value cfg acts pred\<rparr>"
proof (cases "distance_loop_error cfg acts pred = None \<and> 1 < dim1 acts")
  case True
  then have "dim2 pred \<noteq> 0"
    using distance_loop_error_NoneD(2) [of cfg acts pred] by auto
  with True show ?thesis
    unfolding calculate_loss_def by (auto split: option.splits)
next
  case False
  then show ?thesis
    unfolding calculate_loss_def by (auto split: option.splits)
qed

lemma calculate_loss_returns:
  assumes "same_shape acts pred" "0 < dim0 acts" "1 < dim1 acts" "2 \<le> dim2 acts"
    and "traj_size_pos_ctrl_pts cfg \<noteq> 0"
  shows "\<exists>r. calculate_loss cfg acts pred = Inr r"
  unfolding calculate_loss_Inr_iff
  using distance_loop_error_same_shape [OF assms(1,4)] solver_loop_error_pos [OF assms(5)] assms
  by (simp add: same_shape_def)

lemma calculate_loss_items:
  assumes "calculate_loss cfg acts pred = Inr r" "n < dim0 acts"
  shows "\<exists>ms. item_assignment cfg acts pred n = Inr ms"
  using assms unfolding calculate_loss_Inr_iff solver_loop_error_None by blast

section \<open>The existence loss\<close>

lemma slot_assigned_iff:
  "slot_assigned cfg acts pred n j =
     (if \<exists>i<dim1 acts. alpha_matrix cfg acts pred n i j = 1 then 1 else 0)"
  unfolding slot_assigned_def list_ex_iff by (simp add: Bex_def)

lemma col_assigned_slot:
  assumes "1 < dim1 acts" "item_assignment cfg acts pred n = Inr ms"
  shows "col_assigned cfg acts pred n j = slot_assigned cfg acts pred n j"
    and "col_not_assigned cfg acts pred n j = 1 - slot_assigned cfg acts pred n j"
proof -
  show c: "col_assigned cfg acts pred n j = slot_assigned cfg acts pred n j"
    unfolding col_assigned_def alpha_matrix_col_sum [OF assms] slot_assigned_iff
    using th_round_of_int [of 1] th_round_of_int [of 0] by simp
  show "col_not_assigned cfg acts pred n j = 1 - slot_assigned cfg acts pred n j"
    unfolding col_not_assigned_def c by (simp add: slot_assigned_iff)
qed

lemma prob_loss_value_spec:
  assumes "calculate_loss cfg acts pred = Inr r"
  shows "prob_loss_value cfg acts pred = spec_prob_loss cfg acts pred"
proof -
  from assms have K: "1 < dim1 acts"
    unfolding calculate_loss_Inr_iff by simp
  have c: "col_assigned cfg acts pred n j = slot_assigned cfg acts pred n j"
    "col_not_assigned cfg acts pred n j = 1 - slot_assigned cfg acts pred n j"
    if "n < dim0 acts" for n j
    using calculate_loss_items [OF assms that] col_assigned_slot [OF K] by blast+
  show ?thesis
    unfolding prob_loss_value_def spec_prob_loss_def norm_constant_def student_probs_def
    by (simp add: c)
qed

section \<open>Non-finite totals, and one item with two experts\<close>

lemma nan_sum_eq:
  "nan_sum n f = (if \<exists>k<n. f k = None then None else Some (\<Sum>k<n. the (f k)))"
proof (cases "\<exists>k<n. f k = None")
  case True
  then show ?thesis using nan_sum_None [of _ n f] by auto
next
  case False
  then have "f k = Some (the (f k))" if "k < n" for k
    using that by auto
  from nan_sum_Some [of n f "\<lambda>k. the (f k)", OF this] False show ?thesis by simp
qed

text \<open>
  A weighted total of a matrix whose entries are all finite or all non-finite, as the
  position and the yaw matrix are.
\<close>

lemma nan_weighted_uniform:
  assumes "\<And>n i j. D n i j = None \<longleftrightarrow> z"
  shows "nan_weighted cfg acts pred D =
           (if z \<and> 0 < dim0 acts \<and> 0 < dim1 acts then None
            else Some (norm_constant acts *
                   (\<Sum>n<dim0 acts. \<Sum>i<dim1 acts. \<Sum>j<dim1 acts.
                      alpha_matrix cfg acts pred n i j * the (D n i j))))"
proof (cases z)
  case True
  then have none: "nan_mul a (D n i j) = None" for a n i j
    using assms by (simp add: nan_mul_def)
  show ?thesis
  proof (cases "0 < dim0 acts \<and> 0 < dim1 acts")
    case pos: True
    define g where "g n i = nan_sum (dim1 acts)
      (\<lambda>j. nan_mul (alpha_matrix cfg acts pred n i j) (D n i j))" for n i
    have g: "g n i = None" for n i
      unfolding g_def
      using nan_sum_None [of 0 "dim1 acts" "\<lambda>j. nan_mul (alpha_matrix cfg acts pred n i j) (D n i j)"]
        pos none by simp
    have h: "nan_sum (dim1 acts) (g n) = None" for n
      using nan_sum_None [of 0 "dim1 acts" "g n"] pos g by simp
    have "nan_sum (dim0 acts) (\<lambda>n. nan_sum (dim1 acts) (g n)) = None"
      using nan_sum_None [of 0 "dim0 acts" "\<lambda>n. nan_sum (dim1 acts) (g n)"] pos h by simp
    then have "nan_sum (dim0 acts) (\<lambda>n. nan_sum (dim1 acts) (\<lambda>i. nan_sum (dim1 acts)
                 (\<lambda>j. nan_mul (alpha_matrix cfg acts pred n i j) (D n i j)))) = None"
      unfolding g_def .
    with True pos show ?thesis by (simp add: nan_weighted_def nan_mul_def)
  next
    case False
    then have "dim0 acts = 0 \<or> dim1 acts = 0" by auto
    then show ?thesis
      by (auto simp: nan_weighted_def nan_mul_def nan_sum_eq)
  qed
next
  case False
  then have some: "nan_mul a (D n i j) = Some (a * the (D n i j))" for a n i j
    using assms [of n i j] by (cases "D n i j") (auto simp: nan_mul_def)
  have "nan_sum (dim0 acts) (\<lambda>n. nan_sum (dim1 acts) (\<lambda>i. nan_sum (dim1 acts)
          (\<lambda>j. nan_mul (alpha_matrix cfg acts pred n i j) (D n i j))))
        = Some (\<Sum>n<dim0 acts. \<Sum>i<dim1 acts. \<Sum>j<dim1 acts.
                  alpha_matrix cfg acts pred n i j * the (D n i j))"
    unfolding some by (intro nan_sum_Some) simp
  with False show ?thesis by (simp add: nan_weighted_def nan_mul_def)
qed

lemma pos_loss_value_eq:
  "pos_loss_value cfg acts pred =
     (if traj_size_pos_ctrl_pts cfg = 0 \<and> 0 < dim0 acts \<and> 0 < dim1 acts then None
      else Some (norm_constant acts *
             (\<Sum>n<dim0 acts. \<Sum>i<dim1 acts. \<Sum>j<dim1 acts.
                alpha_matrix cfg acts pred n i j * the (distance_pos_matrix cfg acts pred n i j))))"
  unfolding pos_loss_value_def by (rule nan_weighted_uniform) simp

lemma yaw_loss_value_eq:
  "yaw_loss_value cfg acts pred =
     (if traj_size_yaw_ctrl_pts cfg = 0 \<and> 0 < dim0 acts \<and> 0 < dim1 acts then None
      else Some (norm_constant acts *
             (\<Sum>n<dim0 acts. \<Sum>i<dim1 acts. \<Sum>j<dim1 acts.
                alpha_matrix cfg acts pred n i j * the (distance_yaw_matrix cfg acts pred n i j))))"
  unfolding yaw_loss_value_def by (rule nan_weighted_uniform) simp

text \<open>One item with two valid experts matched to the slots of their own index.\<close>

lemma calculate_loss_identity2:
  assumes "same_shape acts pred" "dim0 acts = 1" "dim1 acts = 2" "2 \<le> dim2 acts"
    and "item_assignment cfg acts pred 0 = Inr [(0, 0), (1, 1)]"
  shows "calculate_loss cfg acts pred =
     Inr \<lparr>loss = (distance_matrix acts pred 0 0 0 + distance_matrix acts pred 0 1 1) / 2
                 + weight_prob cfg *
                   (((student_probs pred 0 0 - 1)\<^sup>2 + (student_probs pred 0 1 - 1)\<^sup>2) / 2),
          pos_loss = Some ((the (distance_pos_matrix cfg acts pred 0 0 0)
                            + the (distance_pos_matrix cfg acts pred 0 1 1)) / 2),
          yaw_loss = (if traj_size_yaw_ctrl_pts cfg = 0 then None
                      else Some ((the (distance_yaw_matrix cfg acts pred 0 0 0)
                                  + the (distance_yaw_matrix cfg acts pred 0 1 1)) / 2)),
          prob_loss = ((student_probs pred 0 0 - 1)\<^sup>2 + (student_probs pred 0 1 - 1)\<^sup>2) / 2,
          time_loss = (distance_time_matrix acts pred 0 0 0
                       + distance_time_matrix acts pred 0 1 1) / 2\<rparr>"
proof -
  have alpha: "alpha_matrix cfg acts pred 0 i j = (if (i, j) = (0, 0) \<or> (i, j) = (1, 1) then 1 else 0)"
    for i j
    by (simp add: alpha_matrix_def assms(3,5))
  have "valid_rows acts 0 \<noteq> []"
    using item_assignment_zip [OF assms(5)] by auto
  with item_assignment_Inr(2) [OF assms(5)] assms(3)
  have P: "traj_size_pos_ctrl_pts cfg \<noteq> 0"
    by (simp add: valid_rows_def expert_invalid_def)
  have errs: "distance_loop_error cfg acts pred = None" "solver_loop_error cfg acts pred = None"
    using distance_loop_error_same_shape [OF assms(1,4)] solver_loop_error_pos [OF P] by simp_all
  have dims: "dim0 acts = dim0 pred" "dim1 acts = dim1 pred"
    using assms(1) by (simp_all add: same_shape_def)
  have norm: "norm_constant acts = 1 / 2"
    by (simp add: norm_constant_def assms(2,3))
  have 1: "pos_yaw_time_loss cfg acts pred
             = (distance_matrix acts pred 0 0 0 + distance_matrix acts pred 0 1 1) / 2"
    by (simp add: pos_yaw_time_loss_def norm assms(2,3) alpha numeral_2_eq_2)
  have 2: "prob_loss_value cfg acts pred
             = ((student_probs pred 0 0 - 1)\<^sup>2 + (student_probs pred 0 1 - 1)\<^sup>2) / 2"
    by (simp add: prob_loss_value_def norm assms(2,3) alpha numeral_2_eq_2 col_assigned_def
        col_not_assigned_def)
  have 3: "time_loss_value cfg acts pred
             = (distance_time_matrix acts pred 0 0 0 + distance_time_matrix acts pred 0 1 1) / 2"
    by (simp add: time_loss_value_def norm assms(2,3) alpha numeral_2_eq_2)
  have 4: "pos_loss_value cfg acts pred
             = Some ((the (distance_pos_matrix cfg acts pred 0 0 0)
                      + the (distance_pos_matrix cfg acts pred 0 1 1)) / 2)"
    unfolding pos_loss_value_eq using P
    by (simp add: norm assms(2,3) alpha numeral_2_eq_2)
  have 5: "yaw_loss_value cfg acts pred
             = (if traj_size_yaw_ctrl_pts cfg = 0 then None
                else Some ((the (distance_yaw_matrix cfg acts pred 0 0 0)
                            + the (distance_yaw_matrix cfg acts pred 0 1 1)) / 2))"
    unfolding yaw_loss_value_eq
    by (simp add: norm assms(2,3) alpha numeral_2_eq_2)
  show ?thesis
    unfolding calculate_loss_Inr_iff using errs dims assms(2,3)
    by (simp add: 1 2 3 4 5)
qed

section \<open>The example evaluated\<close>

lemma cfg_ex_sel [simp]:
  "traj_size_pos_ctrl_pts cfg_ex = 4" "traj_size_yaw_ctrl_pts cfg_ex = 1" "weight_prob cfg_ex = 1 / 2"
  by (simp_all add: cfg_ex_def)

lemma shapes_ex [simp]:
  "dim0 acts_ex = 1" "dim1 acts_ex = 2" "dim2 acts_ex = 7"
  "dim0 pred_ex = 1" "dim1 pred_ex = 2" "dim2 pred_ex = 7"
  by (simp_all add: acts_ex_def pred_ex_def tensor_def)

lemma item_assignment_ex: "item_assignment cfg_ex acts_ex pred_ex 0 = Inr [(0, 0), (1, 1)]"
  by code_simp

lemma distance_pos_matrix_ex:
  "distance_pos_matrix cfg_ex acts_ex pred_ex 0 0 0 = Some 1"
  "distance_pos_matrix cfg_ex acts_ex pred_ex 0 0 (Suc 0) = Some 4"
  "distance_pos_matrix cfg_ex acts_ex pred_ex 0 (Suc 0) 0 = Some 3"
  "distance_pos_matrix cfg_ex acts_ex pred_ex 0 (Suc 0) (Suc 0) = Some 2"
  by code_simp+

lemma entries_ex:
  "distance_matrix acts_ex pred_ex 0 0 0 = 4 / 7"
  "distance_matrix acts_ex pred_ex 0 (Suc 0) (Suc 0) = 8 / 7"
  "distance_yaw_matrix cfg_ex acts_ex pred_ex 0 0 0 = Some 0"
  "distance_yaw_matrix cfg_ex acts_ex pred_ex 0 (Suc 0) (Suc 0) = Some 0"
  "distance_time_matrix acts_ex pred_ex 0 0 0 = 0"
  "distance_time_matrix acts_ex pred_ex 0 (Suc 0) (Suc 0) = 0"
  "student_probs pred_ex 0 0 = 1"
  "student_probs pred_ex 0 (Suc 0) = 0"
  by code_simp+

lemma calculate_loss_ex:
  "calculate_loss cfg_ex acts_ex pred_ex =
     Inr \<lparr>loss = 31 / 28, pos_loss = Some (3 / 2), yaw_loss = Some 0, prob_loss = 1 / 2,
          time_loss = 0\<rparr>"
proof -
  have "same_shape acts_ex pred_ex" by (simp add: same_shape_def)
  from calculate_loss_identity2 [OF this _ _ _ item_assignment_ex]
  show ?thesis by (simp add: entries_ex distance_pos_matrix_ex)
qed

text \<open>The time entry of equally shaped batches is one sum over the whole batch.\<close>

lemma distance_time_matrix_same_shape:
  assumes "same_shape acts pred"
  shows "distance_time_matrix acts pred n i j
           = (\<Sum>m<dim0 acts. (elem acts m i (dim2 acts - 2) - elem pred m j (dim2 acts - 2))\<^sup>2)"
proof -
  from assms have eq: "dim0 pred = dim0 acts" "dim2 pred = dim2 acts"
    by (simp_all add: same_shape_def)
  have "bsize (dim0 acts) (dim0 acts) = dim0 acts" by (simp add: bsize_def)
  then show ?thesis
    unfolding distance_time_matrix_def eq by simp
qed

text \<open>The full entry of equally shaped batches: the squares of all entries but the last, over the whole size.\<close>

lemma distance_matrix_same_shape:
  assumes "same_shape acts pred" "n < dim0 acts"
  shows "distance_matrix acts pred n i j
           = (\<Sum>k<dim2 acts - 1. (elem acts n i k - elem pred n j k)\<^sup>2) / real (dim2 acts)"
proof -
  from assms have eq: "dim0 pred = dim0 acts" "dim2 pred = dim2 acts"
    by (simp_all add: same_shape_def)
  have "bsize (dim2 acts - 1) (dim2 acts - 1) = dim2 acts - 1" by (simp add: bsize_def)
  then show ?thesis
    unfolding distance_matrix_def eq sq_err_sum_def py_slice_def using assms(2) by simp
qed

text \<open>With one trajectory per action the computation never returns a loss.\<close>

lemma calculate_loss_single:
  assumes "dim1 acts = 1"
  shows "calculate_loss cfg acts pred \<noteq> Inr r"
  using assms unfolding calculate_loss_Inr_iff by simp

lemma calculate_loss_single_error:
  assumes "same_shape acts pred" "dim1 acts = 1" "0 < dim0 acts" "2 \<le> dim2 acts"
  shows "calculate_loss cfg acts pred = Inl UnboundLocalError"
proof -
  have "distance_loop_error cfg acts pred = None"
    by (rule distance_loop_error_same_shape [OF assms(1,4)])
  then show ?thesis
    using assms unfolding calculate_loss_def same_shape_def by simp
qed

text \<open>The two further batches evaluated.\<close>

lemma shapes_long [simp]:
  "dim0 acts_long = 1" "dim1 acts_long = 2" "dim2 acts_long = 8"
  "dim0 pred_long = 1" "dim1 pred_long = 2" "dim2 pred_long = 8"
  by (simp_all add: acts_long_def pred_long_def tensor_def)

lemma item_assignment_long: "item_assignment cfg_ex acts_long pred_long 0 = Inr [(0, 0), (1, 1)]"
  by code_simp

lemma entries_long:
  "distance_matrix acts_long pred_long 0 0 0 = 1 / 2"
  "distance_matrix acts_long pred_long 0 (Suc 0) (Suc 0) = 1"
  "distance_pos_matrix cfg_ex acts_long pred_long 0 0 0 = Some 1"
  "distance_pos_matrix cfg_ex acts_long pred_long 0 (Suc 0) (Suc 0) = Some 2"
  "distance_yaw_matrix cfg_ex acts_long pred_long 0 0 0 = Some 0"
  "distance_yaw_matrix cfg_ex acts_long pred_long 0 (Suc 0) (Suc 0) = Some 0"
  "distance_time_matrix acts_long pred_long 0 0 0 = 0"
  "distance_time_matrix acts_long pred_long 0 (Suc 0) (Suc 0) = 0"
  "student_probs pred_long 0 0 = 1"
  "student_probs pred_long 0 (Suc 0) = 0"
  by code_simp+

lemma calculate_loss_long:
  "calculate_loss cfg_ex acts_long pred_long =
     Inr \<lparr>loss = 1, pos_loss = Some (3 / 2), yaw_loss = Some 0, prob_loss = 1 / 2,
          time_loss = 0\<rparr>"
proof -
  have "same_shape acts_long pred_long" by (simp add: same_shape_def)
  from calculate_loss_identity2 [OF this _ _ _ item_assignment_long]
  show ?thesis by (simp add: entries_long)
qed

lemma cfg_noyaw_sel [simp]:
  "traj_size_pos_ctrl_pts cfg_noyaw = 4" "traj_size_yaw_ctrl_pts cfg_noyaw = 0"
  "weight_prob cfg_noyaw = 1 / 2"
  by (simp_all add: cfg_noyaw_def)

lemma shapes_noyaw [simp]:
  "dim0 acts_noyaw = 1" "dim1 acts_noyaw = 2" "dim2 acts_noyaw = 6"
  "dim0 pred_noyaw = 1" "dim1 pred_noyaw = 2" "dim2 pred_noyaw = 6"
  by (simp_all add: acts_noyaw_def pred_noyaw_def tensor_def)

lemma item_assignment_noyaw:
  "item_assignment cfg_noyaw acts_noyaw pred_noyaw 0 = Inr [(0, 0), (1, 1)]"
  by code_simp

lemma entries_noyaw:
  "distance_matrix acts_noyaw pred_noyaw 0 0 0 = 2 / 3"
  "distance_matrix acts_noyaw pred_noyaw 0 (Suc 0) (Suc 0) = 4 / 3"
  "distance_pos_matrix cfg_noyaw acts_noyaw pred_noyaw 0 0 0 = Some 1"
  "distance_pos_matrix cfg_noyaw acts_noyaw pred_noyaw 0 (Suc 0) (Suc 0) = Some 2"
  "distance_time_matrix acts_noyaw pred_noyaw 0 0 0 = 0"
  "distance_time_matrix acts_noyaw pred_noyaw 0 (Suc 0) (Suc 0) = 0"
  "student_probs pred_noyaw 0 0 = 1"
  "student_probs pred_noyaw 0 (Suc 0) = 0"
  by code_simp+

lemma calculate_loss_noyaw:
  "calculate_loss cfg_noyaw acts_noyaw pred_noyaw =
     Inr \<lparr>loss = 5 / 4, pos_loss = Some (3 / 2), yaw_loss = None, prob_loss = 1 / 2,
          time_loss = 0\<rparr>"
proof -
  have "same_shape acts_noyaw pred_noyaw" by (simp add: same_shape_def)
  from calculate_loss_identity2 [OF this _ _ _ item_assignment_noyaw]
  show ?thesis by (simp add: entries_noyaw)
qed

text \<open>A difference of the batch sizes or of the set sizes always ends in an exception.\<close>

lemma calculate_loss_mismatch:
  assumes "dim0 acts \<noteq> dim0 pred \<or> dim1 acts \<noteq> dim1 pred"
  shows "\<exists>e. calculate_loss cfg acts pred = Inl e"
proof (cases "calculate_loss cfg acts pred")
  case (Inl e)
  then show ?thesis by blast
next
  case (Inr r)
  then have "dim0 acts = dim0 pred" "dim1 acts = dim1 pred"
    unfolding calculate_loss_Inr_iff by simp_all
  with assms show ?thesis by simp
qed

text \<open>The assertions on the shapes are the only source of an assertion error.\<close>

lemma first_error_Some: "first_error es = Some e \<Longrightarrow> Some e \<in> set es"
  by (induction es rule: first_error.induct) auto

lemma body_error_not_assertion: "body_error cfg acts pred i j \<noteq> Some AssertionError"
  by (simp add: body_error_def Let_def)

lemma distance_loop_error_not_assertion:
  "distance_loop_error cfg acts pred \<noteq> Some AssertionError"
proof
  assume "distance_loop_error cfg acts pred = Some AssertionError"
  then have "Some AssertionError
      \<in> set (map (\<lambda>(i, j). body_error cfg acts pred i j)
               (List.product [0..<dim1 acts] [0..<dim1 acts]))"
    unfolding distance_loop_error_def by (rule first_error_Some)
  then obtain i j where "body_error cfg acts pred i j = Some AssertionError"
    by auto
  then show False using body_error_not_assertion by blast
qed

lemma item_assignment_Inl: "item_assignment cfg acts pred n = Inl e \<Longrightarrow> e = ValueError"
  unfolding item_assignment_def Let_def linear_sum_assignment_def
  by (simp split: if_splits)

lemma solver_loop_error_not_assertion:
  "solver_loop_error cfg acts pred \<noteq> Some AssertionError"
proof
  assume "solver_loop_error cfg acts pred = Some AssertionError"
  then have "Some AssertionError
      \<in> set (map (\<lambda>n. case item_assignment cfg acts pred n of Inl e \<Rightarrow> Some e | Inr _ \<Rightarrow> None)
               [0..<dim0 acts])"
    unfolding solver_loop_error_def by (rule first_error_Some)
  then obtain n where "(case item_assignment cfg acts pred n of Inl e \<Rightarrow> Some e | Inr _ \<Rightarrow> None)
      = Some AssertionError"
    by auto
  then have "item_assignment cfg acts pred n = Inl AssertionError"
    by (cases "item_assignment cfg acts pred n") simp_all
  from item_assignment_Inl [OF this] show False by simp
qed

lemma calculate_loss_assertion:
  assumes "calculate_loss cfg acts pred = Inl AssertionError"
  shows "dim0 acts \<noteq> dim0 pred \<or> dim1 acts \<noteq> dim1 pred"
proof (rule ccontr)
  assume "\<not> (dim0 acts \<noteq> dim0 pred \<or> dim1 acts \<noteq> dim1 pred)"
  then have eq: "dim0 acts = dim0 pred" "dim1 acts = dim1 pred" by simp_all
  show False
  proof (cases "distance_loop_error cfg acts pred")
    case (Some e)
    with assms have "e = AssertionError"
      by (simp add: calculate_loss_def)
    with Some distance_loop_error_not_assertion show False by blast
  next
    case None
    show False
    proof (cases "if 1 < dim1 acts then solver_loop_error cfg acts pred else None")
      case (Some e)
      with assms None have "e = AssertionError"
        by (simp add: calculate_loss_def)
      with Some solver_loop_error_not_assertion show False
        by (simp split: if_splits)
    next
      case n: None
      with assms None eq show False
        by (simp add: calculate_loss_def split: if_splits)
    qed
  qed
qed

lemma shapes_three [simp]:
  "dim0 pred_three = 1" "dim1 pred_three = 3" "dim2 pred_three = 7"
  by (simp_all add: pred_three_def tensor_def)

lemma calculate_loss_three: "calculate_loss cfg_ex acts_ex pred_three = Inl AssertionError"
proof -
  have b: "body_error cfg_ex acts_ex pred_three i j = None" if "j < 2" for i j
    using that by (simp add: body_error_def Let_def broadcastable_def bsize_def)
  have "distance_loop_error cfg_ex acts_ex pred_three = None"
    unfolding distance_loop_error_None using b by simp
  moreover have "solver_loop_error cfg_ex acts_ex pred_three = None"
    by (rule solver_loop_error_pos) simp
  ultimately show ?thesis
    by (simp add: calculate_loss_def)
qed

text \<open>An item all of whose experts are invalid.\<close>

lemma solve_rows_0 [simp]: "solve_rows 0 K C = []"
  by (simp add: solve_rows_def)

lemma item_assignment_all_invalid:
  assumes "\<forall>i<dim1 acts. expert_invalid acts n i"
  shows "item_assignment cfg acts pred n = Inr []"
proof -
  from assms have rows: "valid_rows acts n = []"
    by (auto simp: valid_rows_def filter_empty_conv)
  have "\<not> cost_invalid 0 K C" for K C
    by (simp add: cost_invalid_def)
  then show ?thesis
    unfolding item_assignment_def Let_def valid_rows_kept rows linear_sum_assignment_def
    by simp
qed

text \<open>The total of a matrix over the matched pairs, by way of the assignment matrix.\<close>

lemma alpha_matrix_total:
  assumes "1 < dim1 acts" "item_assignment cfg acts pred n = Inr ms"
  shows "(\<Sum>i<dim1 acts. \<Sum>j<dim1 acts. alpha_matrix cfg acts pred n i j * c i j)
           = (\<Sum>r<length (valid_rows acts n). c (valid_rows acts n ! r) (item_cols cfg acts pred n ! r))"
proof -
  let ?K = "dim1 acts"
  let ?rows = "valid_rows acts n"
  let ?cols = "item_cols cfg acts pred n"
  let ?S = "set (zip ?rows ?cols)"
  have len: "length ?cols = length ?rows" by (rule item_cols_props(1))
  have sub: "?S \<subseteq> {..<?K} \<times> {..<?K}"
  proof
    fix p
    assume p: "p \<in> ?S"
    obtain i j where ij: "p = (i, j)" by (cases p)
    from p ij have "i \<in> set ?rows" "j \<in> set ?cols"
      by (auto dest: set_zip_leftD set_zip_rightD)
    then show "p \<in> {..<?K} \<times> {..<?K}"
      using valid_rows_props(3) [of acts n] item_cols_props(3) [of cfg acts pred n] ij
      by auto
  qed
  have dist: "distinct (zip ?rows ?cols)"
    by (rule distinct_zipI1) (rule valid_rows_props(1))
  have "(\<Sum>i<?K. \<Sum>j<?K. alpha_matrix cfg acts pred n i j * c i j)
          = (\<Sum>i<?K. \<Sum>j<?K. if (i, j) \<in> ?S then c i j else 0)"
    unfolding alpha_matrix_zip [OF assms] by (intro sum.cong refl) simp
  also have "\<dots> = (\<Sum>p\<in>{..<?K} \<times> {..<?K}. if p \<in> ?S then c (fst p) (snd p) else 0)"
    unfolding sum.cartesian_product by (rule sum.cong) auto
  also have "\<dots> = (\<Sum>p\<in>({..<?K} \<times> {..<?K}) \<inter> ?S. c (fst p) (snd p))"
    by (rule sum.inter_restrict [symmetric]) simp
  also have "\<dots> = (\<Sum>p\<in>?S. c (fst p) (snd p))"
    using sub by (simp add: Int_absorb1)
  also have "\<dots> = sum_list (map (\<lambda>p. c (fst p) (snd p)) (zip ?rows ?cols))"
    using dist by (simp add: sum.distinct_set_conv_list)
  also have "\<dots> = (\<Sum>r<length ?rows. c (?rows ! r) (?cols ! r))"
    using len by (simp add: sum_list_sum_nth atLeast0LessThan)
  finally show ?thesis .
qed

lemma sum_nth_distinct:
  assumes "distinct xs"
  shows "(\<Sum>r<length xs. f (xs ! r)) = (\<Sum>x\<in>set xs. f x)"
proof -
  have "(\<Sum>x\<in>set xs. f x) = sum_list (map f xs)"
    using assms by (simp add: sum.distinct_set_conv_list)
  also have "\<dots> = (\<Sum>r<length xs. f (xs ! r))"
    by (simp add: sum_list_sum_nth atLeast0LessThan)
  finally show ?thesis by simp
qed

text \<open>The solver's columns cost no more than any other matching of the valid rows.\<close>

lemma item_cols_optimal:
  assumes "inj_on \<sigma> (set (valid_rows acts n))" "\<sigma> ` set (valid_rows acts n) \<subseteq> {..<dim1 acts}"
  shows "(\<Sum>r<length (valid_rows acts n).
            reduced_cost cfg acts pred n r (item_cols cfg acts pred n ! r))
         \<le> (\<Sum>r<length (valid_rows acts n).
            reduced_cost cfg acts pred n r (\<sigma> (valid_rows acts n ! r)))"
proof -
  let ?rows = "valid_rows acts n"
  let ?cols = "map \<sigma> ?rows"
  have "distinct ?cols"
    using assms(1) valid_rows_props(1) [of acts n] by (simp add: distinct_map)
  moreover have "set ?cols \<subseteq> {..<dim1 acts}"
    using assms(2) by simp
  ultimately have "assignment_cost (reduced_cost cfg acts pred n) (item_cols cfg acts pred n)
      \<le> assignment_cost (reduced_cost cfg acts pred n) ?cols"
    unfolding item_cols_def by (intro solve_rows_optimal) simp_all
  then show ?thesis
    by (simp add: assignment_cost_def item_cols_props(1))
qed

lemma alpha_matrix_pos_total:
  assumes "1 < dim1 acts" "item_assignment cfg acts pred n = Inr ms"
  shows "(\<Sum>i<dim1 acts. \<Sum>j<dim1 acts.
            alpha_matrix cfg acts pred n i j * the (distance_pos_matrix cfg acts pred n i j))
         = (\<Sum>r<length (valid_rows acts n).
              reduced_cost cfg acts pred n r (item_cols cfg acts pred n ! r))"
  unfolding reduced_cost_def
  by (rule alpha_matrix_total [OF assms, of "\<lambda>i j. the (distance_pos_matrix cfg acts pred n i j)"])

lemma matching_minimal:
  assumes "1 < dim1 acts" "item_assignment cfg acts pred n = Inr ms"
    and "inj_on \<sigma> {i. i < dim1 acts \<and> \<not> expert_invalid acts n i}"
    and "\<sigma> ` {i. i < dim1 acts \<and> \<not> expert_invalid acts n i} \<subseteq> {..<dim1 acts}"
  shows "(\<Sum>i<dim1 acts. \<Sum>j<dim1 acts.
            alpha_matrix cfg acts pred n i j * the (distance_pos_matrix cfg acts pred n i j))
         \<le> (\<Sum>i | i < dim1 acts \<and> \<not> expert_invalid acts n i.
              the (distance_pos_matrix cfg acts pred n i (\<sigma> i)))"
proof -
  let ?rows = "valid_rows acts n"
  have V: "set ?rows = {i. i < dim1 acts \<and> \<not> expert_invalid acts n i}"
    by (rule valid_rows_props(3))
  have "(\<Sum>r<length ?rows. reduced_cost cfg acts pred n r (\<sigma> (?rows ! r)))
          = (\<Sum>r<length ?rows. the (distance_pos_matrix cfg acts pred n (?rows ! r) (\<sigma> (?rows ! r))))"
    by (simp add: reduced_cost_def)
  also have "\<dots> = (\<Sum>i\<in>set ?rows. the (distance_pos_matrix cfg acts pred n i (\<sigma> i)))"
    by (rule sum_nth_distinct [OF valid_rows_props(1),
          of "\<lambda>i. the (distance_pos_matrix cfg acts pred n i (\<sigma> i))"])
  finally have "(\<Sum>r<length ?rows. reduced_cost cfg acts pred n r (\<sigma> (?rows ! r)))
      = (\<Sum>i | i < dim1 acts \<and> \<not> expert_invalid acts n i.
           the (distance_pos_matrix cfg acts pred n i (\<sigma> i)))"
    unfolding V .
  with item_cols_optimal [of \<sigma> acts n cfg pred] assms(3,4) V
    alpha_matrix_pos_total [OF assms(1,2)]
  show ?thesis by simp
qed

lemma matching_pairs:
  assumes "item_assignment cfg acts pred n = Inr ms"
  shows "map fst ms = valid_rows acts n" "distinct (map snd ms)"
    "set (map snd ms) \<subseteq> {..<dim1 acts}"
proof -
  have ms: "ms = zip (valid_rows acts n) (item_cols cfg acts pred n)"
    by (rule item_assignment_zip [OF assms])
  have len: "length (item_cols cfg acts pred n) = length (valid_rows acts n)"
    by (rule item_cols_props(1))
  from ms len show "map fst ms = valid_rows acts n" by simp
  from ms len have "map snd ms = item_cols cfg acts pred n" by simp
  then show "distinct (map snd ms)" "set (map snd ms) \<subseteq> {..<dim1 acts}"
    using item_cols_props(2,3) [of cfg acts pred n] by simp_all
qed

section \<open>Permuted predictions\<close>

lemma permute_item_dims [simp]:
  "dim0 (permute_item pred n0 p) = dim0 pred"
  "dim1 (permute_item pred n0 p) = dim1 pred"
  "dim2 (permute_item pred n0 p) = dim2 pred"
  by (simp_all add: permute_item_def)

lemma permute_item_elem [simp]:
  "elem (permute_item pred n0 p) n j k = elem pred n (slot_of n0 p n j) k"
  by (simp add: permute_item_def)

lemma slot_of_bij:
  assumes "bij_betw p {..<K} {..<K}"
  shows "bij_betw (slot_of n0 p n) {..<K} {..<K}"
proof (cases "n = n0")
  case True
  then have "slot_of n0 p n = p" by (auto simp: slot_of_def)
  with assms show ?thesis by simp
next
  case False
  then have "slot_of n0 p n = (\<lambda>j. j)" by (auto simp: slot_of_def)
  then show ?thesis by (simp add: bij_betw_def)
qed

lemma sq_err_sum_permute:
  "sq_err_sum a n i sa (permute_item b n0 p) m j sb
     = sq_err_sum a n i sa b m (slot_of n0 p m j) sb"
  by (simp add: sq_err_sum_def)

lemma distance_matrix_permute:
  assumes "n < dim0 pred"
  shows "distance_matrix acts (permute_item pred n0 p) n i j
           = distance_matrix acts pred n i (slot_of n0 p n j)"
  using assms by (simp add: distance_matrix_def sq_err_sum_permute)

lemma distance_pos_matrix_permute:
  assumes "n < dim0 pred"
  shows "distance_pos_matrix cfg acts (permute_item pred n0 p) n i j
           = distance_pos_matrix cfg acts pred n i (slot_of n0 p n j)"
  using assms by (simp add: distance_pos_matrix_def sq_err_sum_permute)

lemma distance_yaw_matrix_permute:
  assumes "n < dim0 pred"
  shows "distance_yaw_matrix cfg acts (permute_item pred n0 p) n i j
           = distance_yaw_matrix cfg acts pred n i (slot_of n0 p n j)"
  using assms by (simp add: distance_yaw_matrix_def sq_err_sum_permute)

lemma student_probs_permute:
  "student_probs (permute_item pred n0 p) n j = student_probs pred n (slot_of n0 p n j)"
  by (simp add: student_probs_def)

lemma reduced_cost_permute:
  assumes "n < dim0 pred"
  shows "reduced_cost cfg acts (permute_item pred n0 p) n r j
           = reduced_cost cfg acts pred n r (slot_of n0 p n j)"
  using assms by (simp add: reduced_cost_def distance_pos_matrix_permute)

lemma distance_loop_error_permute [simp]:
  "distance_loop_error cfg acts (permute_item pred n0 p) = distance_loop_error cfg acts pred"
  by (simp add: distance_loop_error_def body_error_def)

text \<open>Whether the solver returns for an item does not depend on the predictions.\<close>

lemma item_assignment_returns_iff:
  "(\<exists>ms. item_assignment cfg acts pred n = Inr ms) \<longleftrightarrow>
     valid_rows acts n = [] \<or> dim1 acts = 0 \<or> traj_size_pos_ctrl_pts cfg \<noteq> 0"
proof -
  let ?C = "\<lambda>r j. distance_pos_matrix cfg acts pred n (valid_rows acts n ! r) j"
  have inv: "cost_invalid (length (valid_rows acts n)) (dim1 acts) ?C \<longleftrightarrow>
      \<not> (valid_rows acts n = [] \<or> dim1 acts = 0 \<or> traj_size_pos_ctrl_pts cfg \<noteq> 0)"
    by (auto simp: cost_invalid_iff)
  show ?thesis
  proof (cases "cost_invalid (length (valid_rows acts n)) (dim1 acts) ?C")
    case True
    then have "item_assignment cfg acts pred n = Inl ValueError"
      unfolding item_assignment_def Let_def valid_rows_kept linear_sum_assignment_def by simp
    with True inv show ?thesis by simp
  next
    case False
    then have "\<exists>ms. item_assignment cfg acts pred n = Inr ms"
      unfolding item_assignment_def Let_def valid_rows_kept linear_sum_assignment_def
      by (simp split: prod.splits)
    with False inv show ?thesis by simp
  qed
qed

lemma solver_loop_error_permute [simp]:
  "solver_loop_error cfg acts (permute_item pred n0 p) = None
     \<longleftrightarrow> solver_loop_error cfg acts pred = None"
  unfolding solver_loop_error_None item_assignment_returns_iff ..

lemma arg_min_list_cong:
  assumes "xs \<noteq> []" "\<And>x. x \<in> set xs \<Longrightarrow> f x = g x"
  shows "arg_min_list f xs = arg_min_list g xs"
  using assms
proof (induction f xs rule: arg_min_list.induct)
  case (1 f x)
  show ?case by simp
next
  case (2 f x y zs)
  then have "arg_min_list f (y # zs) = arg_min_list g (y # zs)" by simp
  moreover have "arg_min_list g (y # zs) \<in> set (y # zs)"
    by (rule arg_min_list_in) simp
  ultimately show ?case using "2.prems" by (simp add: Let_def)
next
  case (3 f)
  then show ?case by simp
qed

text \<open>The solver reads the cost matrix only at the rows and columns of its shape.\<close>

lemma solve_rows_cong:
  assumes "R \<le> K" "\<And>r j. r < R \<Longrightarrow> j < K \<Longrightarrow> C r j = C' r j"
  shows "solve_rows R K C = solve_rows R K C'"
  unfolding solve_rows_def
proof (rule arg_min_list_cong)
  show "injections R [0..<K] \<noteq> []"
    by (rule injections_upt_nonempty [OF assms(1)])
next
  fix cols
  assume "cols \<in> set (injections R [0..<K])"
  then have "length cols = R" "set cols \<subseteq> {..<K}"
    unfolding set_injections by auto
  then have "C r (cols ! r) = C' r (cols ! r)" if "r < length cols" for r
    using that assms(2) [of r "cols ! r"] by (auto simp: subset_iff)
  then show "assignment_cost C cols = assignment_cost C' cols"
    by (simp add: assignment_cost_def)
qed

text \<open>
  Permuting the columns of a cost matrix with a unique optimum permutes the solver's
  answer with them.
\<close>

lemma solve_rows_permuted:
  assumes bij: "bij_betw q {..<K} {..<K}" and R: "R \<le> K"
    and C': "\<And>r j. C' r j = C r (q j)"
    and uniq: "\<And>cols. length cols = R \<Longrightarrow> distinct cols \<Longrightarrow> set cols \<subseteq> {..<K} \<Longrightarrow>
        cols = solve_rows R K C \<or> assignment_cost C (solve_rows R K C) < assignment_cost C cols"
  shows "map q (solve_rows R K C') = solve_rows R K C"
proof -
  let ?best = "solve_rows R K C"
  let ?best' = "solve_rows R K C'"
  let ?qi = "inv_into {..<K} q"
  have inj: "inj_on q {..<K}" and img: "q ` {..<K} = {..<K}"
    using bij by (simp_all add: bij_betw_def)
  have bij': "bij_betw ?qi {..<K} {..<K}"
    by (rule bij_betw_inv_into [OF bij])
  then have inj': "inj_on ?qi {..<K}" and img': "?qi ` {..<K} = {..<K}"
    by (simp_all add: bij_betw_def)
  have b: "length ?best = R" "distinct ?best" "set ?best \<subseteq> {..<K}"
    by (rule solve_rows_props [OF R])+
  have b': "length ?best' = R" "distinct ?best'" "set ?best' \<subseteq> {..<K}"
    by (rule solve_rows_props [OF R])+
  have m: "length (map q ?best') = R" "distinct (map q ?best')" "set (map q ?best') \<subseteq> {..<K}"
  proof -
    show "length (map q ?best') = R" using b'(1) by simp
    show "distinct (map q ?best')"
      using b'(2,3) inj by (auto simp: distinct_map intro: inj_on_subset)
    show "set (map q ?best') \<subseteq> {..<K}"
      using b'(3) img by auto
  qed
  have c: "length (map ?qi ?best) = R" "distinct (map ?qi ?best)" "set (map ?qi ?best) \<subseteq> {..<K}"
  proof -
    show "length (map ?qi ?best) = R" using b(1) by simp
    show "distinct (map ?qi ?best)"
      using b(2,3) inj' by (auto simp: distinct_map intro: inj_on_subset)
    show "set (map ?qi ?best) \<subseteq> {..<K}"
      using b(3) img' by auto
  qed
  have 1: "assignment_cost C (map q ?best') = assignment_cost C' ?best'"
    by (simp add: assignment_cost_def C')
  have "q (?qi (?best ! r)) = ?best ! r" if "r < R" for r
  proof -
    from that b(1,3) have "?best ! r \<in> {..<K}" by (auto simp: subset_iff)
    then show ?thesis by (rule bij_betw_inv_into_right [OF bij])
  qed
  then have 2: "assignment_cost C' (map ?qi ?best) = assignment_cost C ?best"
    by (simp add: assignment_cost_def C' b(1))
  have "assignment_cost C' ?best' \<le> assignment_cost C' (map ?qi ?best)"
    by (rule solve_rows_optimal [OF c])
  with 1 2 have "assignment_cost C (map q ?best') \<le> assignment_cost C ?best"
    by simp
  with uniq [OF m] show ?thesis by auto
qed

lemma unique_optimumD:
  assumes "unique_optimum cfg acts pred n"
    and "length cols = length (valid_rows acts n)" "distinct cols" "set cols \<subseteq> {..<dim1 acts}"
  shows "cols = item_cols cfg acts pred n
         \<or> assignment_cost (reduced_cost cfg acts pred n) (item_cols cfg acts pred n)
             < assignment_cost (reduced_cost cfg acts pred n) cols"
proof -
  have "cols \<in> set (injections (length (valid_rows acts n)) [0..<dim1 acts])"
    unfolding set_injections using assms(2-4) by auto
  with assms(1) show ?thesis
    unfolding unique_optimum_def list_all_iff by blast
qed

lemma item_cols_permute:
  assumes "bij_betw p {..<dim1 acts} {..<dim1 acts}" "n < dim0 pred"
    and "n = n0 \<Longrightarrow> unique_optimum cfg acts pred n"
  shows "map (slot_of n0 p n) (item_cols cfg acts (permute_item pred n0 p) n)
           = item_cols cfg acts pred n"
proof (cases "n = n0")
  case True
  show ?thesis
    unfolding item_cols_def
  proof (rule solve_rows_permuted)
    show "bij_betw (slot_of n0 p n) {..<dim1 acts} {..<dim1 acts}"
      by (rule slot_of_bij [OF assms(1)])
    show "length (valid_rows acts n) \<le> dim1 acts"
      by (rule valid_rows_props(2))
    show "reduced_cost cfg acts (permute_item pred n0 p) n r j
            = reduced_cost cfg acts pred n r (slot_of n0 p n j)" for r j
      by (rule reduced_cost_permute [OF assms(2)])
    show "cols = solve_rows (length (valid_rows acts n)) (dim1 acts) (reduced_cost cfg acts pred n)
          \<or> assignment_cost (reduced_cost cfg acts pred n)
               (solve_rows (length (valid_rows acts n)) (dim1 acts) (reduced_cost cfg acts pred n))
             < assignment_cost (reduced_cost cfg acts pred n) cols"
      if "length cols = length (valid_rows acts n)" "distinct cols" "set cols \<subseteq> {..<dim1 acts}"
      for cols
      using unique_optimumD [OF assms(3) [OF True] that] by (simp add: item_cols_def)
  qed
next
  case False
  then have id: "slot_of n0 p n = (\<lambda>j. j)"
    by (auto simp: slot_of_def)
  have "reduced_cost cfg acts (permute_item pred n0 p) n = reduced_cost cfg acts pred n"
    by (intro ext) (simp add: reduced_cost_permute [OF assms(2)] id)
  then show ?thesis
    by (simp add: item_cols_def id)
qed

text \<open>The assignment matrix of the permuted batch is the old one with its columns permuted.\<close>

lemma alpha_matrix_permute:
  assumes K: "1 < dim1 acts" and bij: "bij_betw p {..<dim1 acts} {..<dim1 acts}"
    and n: "n < dim0 pred" and uniq: "n = n0 \<Longrightarrow> unique_optimum cfg acts pred n"
    and ms: "item_assignment cfg acts pred n = Inr ms" and j: "j < dim1 acts"
  shows "alpha_matrix cfg acts (permute_item pred n0 p) n i j
           = alpha_matrix cfg acts pred n i (slot_of n0 p n j)"
proof -
  let ?pred' = "permute_item pred n0 p"
  let ?q = "slot_of n0 p n"
  let ?rows = "valid_rows acts n"
  let ?cols = "item_cols cfg acts pred n"
  let ?cols' = "item_cols cfg acts ?pred' n"
  from ms obtain ms' where ms': "item_assignment cfg acts ?pred' n = Inr ms'"
    using item_assignment_returns_iff [of cfg acts pred n]
      item_assignment_returns_iff [of cfg acts ?pred' n] by blast
  have bq: "bij_betw ?q {..<dim1 acts} {..<dim1 acts}"
    by (rule slot_of_bij [OF bij])
  then have inj: "inj_on ?q {..<dim1 acts}"
    by (simp add: bij_betw_def)
  have cols: "map ?q ?cols' = ?cols"
    by (rule item_cols_permute [OF bij n uniq])
  have len: "length ?cols' = length ?rows"
    by (rule item_cols_props(1))
  have eq: "?cols' ! r = j \<longleftrightarrow> ?cols ! r = ?q j" if r: "r < length ?rows" for r
  proof -
    from r len have "?cols' ! r \<in> set ?cols'" by simp
    then have in_range: "?cols' ! r \<in> {..<dim1 acts}"
      using item_cols_props(3) [of cfg acts ?pred' n] by blast
    have "?cols ! r = ?q (?cols' ! r)"
      using r len cols [symmetric] by simp
    then show ?thesis
      using inj_onD [OF inj, of "?cols' ! r" j] in_range j by auto
  qed
  have "alpha_matrix cfg acts ?pred' n i j = 1 \<longleftrightarrow> alpha_matrix cfg acts pred n i (?q j) = 1"
    unfolding alpha_matrix_one_iff [OF K ms] alpha_matrix_one_iff [OF K ms']
    using eq by blast
  with alpha_matrix_01 [OF K ms, of i "?q j"] alpha_matrix_01 [OF K ms', of i j]
  show ?thesis by auto
qed

lemma sum_slot_of:
  assumes "bij_betw p {..<K} {..<K}"
  shows "(\<Sum>j<K. f (slot_of n0 p n j)) = (\<Sum>j<K. f j)"
  by (rule sum.reindex_bij_betw [OF slot_of_bij [OF assms]])

text \<open>The matched total of an item for any matrix that is permuted with the predictions.\<close>

lemma matched_total_permute:
  assumes K: "1 < dim1 acts" and bij: "bij_betw p {..<dim1 acts} {..<dim1 acts}"
    and n: "n < dim0 pred" and uniq: "n = n0 \<Longrightarrow> unique_optimum cfg acts pred n"
    and ms: "item_assignment cfg acts pred n = Inr ms"
    and D: "\<And>i j. D' i j = D i (slot_of n0 p n j)"
  shows "(\<Sum>i<dim1 acts. \<Sum>j<dim1 acts.
            alpha_matrix cfg acts (permute_item pred n0 p) n i j * D' i j)
         = (\<Sum>i<dim1 acts. \<Sum>j<dim1 acts. alpha_matrix cfg acts pred n i j * D i j)"
proof -
  have "(\<Sum>j<dim1 acts. alpha_matrix cfg acts (permute_item pred n0 p) n i j * D' i j)
          = (\<Sum>j<dim1 acts. alpha_matrix cfg acts pred n i j * D i j)" for i
  proof -
    have "(\<Sum>j<dim1 acts. alpha_matrix cfg acts (permute_item pred n0 p) n i j * D' i j)
            = (\<Sum>j<dim1 acts. alpha_matrix cfg acts pred n i (slot_of n0 p n j)
                                 * D i (slot_of n0 p n j))"
      by (rule sum.cong) (simp_all add: alpha_matrix_permute [OF K bij n uniq ms] D)
    also have "\<dots> = (\<Sum>j<dim1 acts. alpha_matrix cfg acts pred n i j * D i j)"
      by (rule sum_slot_of [OF bij, of "\<lambda>j. alpha_matrix cfg acts pred n i j * D i j"])
    finally show ?thesis .
  qed
  then show ?thesis by simp
qed

lemma col_assigned_permute:
  assumes K: "1 < dim1 acts" and bij: "bij_betw p {..<dim1 acts} {..<dim1 acts}"
    and n: "n < dim0 pred" and uniq: "n = n0 \<Longrightarrow> unique_optimum cfg acts pred n"
    and ms: "item_assignment cfg acts pred n = Inr ms" and j: "j < dim1 acts"
  shows "col_assigned cfg acts (permute_item pred n0 p) n j
           = col_assigned cfg acts pred n (slot_of n0 p n j)"
    and "col_not_assigned cfg acts (permute_item pred n0 p) n j
           = col_not_assigned cfg acts pred n (slot_of n0 p n j)"
proof -
  show c: "col_assigned cfg acts (permute_item pred n0 p) n j
           = col_assigned cfg acts pred n (slot_of n0 p n j)"
    unfolding col_assigned_def
    by (simp add: alpha_matrix_permute [OF K bij n uniq ms j])
  show "col_not_assigned cfg acts (permute_item pred n0 p) n j
           = col_not_assigned cfg acts pred n (slot_of n0 p n j)"
    unfolding col_not_assigned_def c ..
qed

text \<open>
  The returned values, apart from the time loss, are those of the batch before the
  permutation when the permuted item has a unique optimal matching.
\<close>

lemma calculate_loss_permute:
  assumes r: "calculate_loss cfg acts pred = Inr r"
    and bij: "bij_betw p {..<dim1 pred} {..<dim1 pred}"
    and uniq: "unique_optimum cfg acts pred n0"
  shows "calculate_loss cfg acts (permute_item pred n0 p) =
           Inr \<lparr>loss = loss r, pos_loss = pos_loss r, yaw_loss = yaw_loss r,
                prob_loss = prob_loss r,
                time_loss = time_loss_value cfg acts (permute_item pred n0 p)\<rparr>"
proof -
  let ?pred' = "permute_item pred n0 p"
  let ?N = "dim0 acts"
  let ?K = "dim1 acts"
  from r have ok: "distance_loop_error cfg acts pred = None" "solver_loop_error cfg acts pred = None"
    "dim0 acts = dim0 pred" "dim1 acts = dim1 pred" "0 < ?N" "1 < ?K"
    and rv: "loss r = pos_yaw_time_loss cfg acts pred + weight_prob cfg * prob_loss_value cfg acts pred"
      "pos_loss r = pos_loss_value cfg acts pred" "yaw_loss r = yaw_loss_value cfg acts pred"
      "prob_loss r = prob_loss_value cfg acts pred"
    unfolding calculate_loss_Inr_iff by simp_all
  have bij': "bij_betw p {..<?K} {..<?K}"
    using bij ok(4) by simp
  have u: "unique_optimum cfg acts pred n" if "n = n0" for n
    using that uniq by simp
  have items: "\<exists>ms. item_assignment cfg acts pred n = Inr ms" if "n < ?N" for n
    by (rule calculate_loss_items [OF r that])
  have total: "(\<Sum>i<?K. \<Sum>j<?K. alpha_matrix cfg acts ?pred' n i j * D' i j)
                 = (\<Sum>i<?K. \<Sum>j<?K. alpha_matrix cfg acts pred n i j * D i j)"
    if "n < ?N" "\<And>i j. D' i j = D i (slot_of n0 p n j)" for n D D'
  proof -
    from items [OF that(1)] obtain ms where ms: "item_assignment cfg acts pred n = Inr ms" ..
    from that(1) ok(3) have n: "n < dim0 pred" by simp
    show ?thesis
      using matched_total_permute [where acts = acts and pred = pred and cfg = cfg and p = p
          and n = n and ms = ms and D = D and D' = D', of n0] ok(6) bij' n u ms that(2)
      by blast
  qed
  have 1: "pos_yaw_time_loss cfg acts ?pred' = pos_yaw_time_loss cfg acts pred"
  proof -
    have "(\<Sum>i<?K. \<Sum>j<?K. alpha_matrix cfg acts ?pred' n i j * distance_matrix acts ?pred' n i j)
            = (\<Sum>i<?K. \<Sum>j<?K. alpha_matrix cfg acts pred n i j * distance_matrix acts pred n i j)"
      if "n < ?N" for n
      using that ok(3) by (intro total) (simp_all add: distance_matrix_permute)
    then show ?thesis
      by (simp add: pos_yaw_time_loss_def)
  qed
  have 2: "pos_loss_value cfg acts ?pred' = pos_loss_value cfg acts pred"
  proof -
    have "(\<Sum>i<?K. \<Sum>j<?K. alpha_matrix cfg acts ?pred' n i j
               * the (distance_pos_matrix cfg acts ?pred' n i j))
            = (\<Sum>i<?K. \<Sum>j<?K. alpha_matrix cfg acts pred n i j
               * the (distance_pos_matrix cfg acts pred n i j))"
      if "n < ?N" for n
      using that ok(3) by (intro total) (simp_all add: distance_pos_matrix_permute)
    then show ?thesis
      by (simp add: pos_loss_value_eq)
  qed
  have 3: "yaw_loss_value cfg acts ?pred' = yaw_loss_value cfg acts pred"
  proof -
    have "(\<Sum>i<?K. \<Sum>j<?K. alpha_matrix cfg acts ?pred' n i j
               * the (distance_yaw_matrix cfg acts ?pred' n i j))
            = (\<Sum>i<?K. \<Sum>j<?K. alpha_matrix cfg acts pred n i j
               * the (distance_yaw_matrix cfg acts pred n i j))"
      if "n < ?N" for n
      using that ok(3) by (intro total) (simp_all add: distance_yaw_matrix_permute)
    then show ?thesis
      by (simp add: yaw_loss_value_eq)
  qed
  have 4: "prob_loss_value cfg acts ?pred' = prob_loss_value cfg acts pred"
  proof -
    have cols: "col_assigned cfg acts ?pred' n j = col_assigned cfg acts pred n (slot_of n0 p n j)"
      "col_not_assigned cfg acts ?pred' n j = col_not_assigned cfg acts pred n (slot_of n0 p n j)"
      if "n < ?N" "j < ?K" for n j
    proof -
      from items [OF that(1)] obtain ms where ms: "item_assignment cfg acts pred n = Inr ms" ..
      from that(1) ok(3) have n: "n < dim0 pred" by simp
      show "col_assigned cfg acts ?pred' n j = col_assigned cfg acts pred n (slot_of n0 p n j)"
        by (rule col_assigned_permute(1) [OF ok(6) bij' n u ms that(2)])
      show "col_not_assigned cfg acts ?pred' n j
              = col_not_assigned cfg acts pred n (slot_of n0 p n j)"
        by (rule col_assigned_permute(2) [OF ok(6) bij' n u ms that(2)])
    qed
    have a: "(\<Sum>j<?K. col_assigned cfg acts ?pred' n j * (student_probs ?pred' n j - 1)\<^sup>2)
               = (\<Sum>j<?K. col_assigned cfg acts pred n j * (student_probs pred n j - 1)\<^sup>2)"
      if "n < ?N" for n
    proof -
      have "(\<Sum>j<?K. col_assigned cfg acts ?pred' n j * (student_probs ?pred' n j - 1)\<^sup>2)
              = (\<Sum>j<?K. col_assigned cfg acts pred n (slot_of n0 p n j)
                   * (student_probs pred n (slot_of n0 p n j) - 1)\<^sup>2)"
        by (rule sum.cong) (simp_all add: cols(1) [OF that] student_probs_permute)
      also have "\<dots> = (\<Sum>j<?K. col_assigned cfg acts pred n j * (student_probs pred n j - 1)\<^sup>2)"
        by (rule sum_slot_of [OF bij',
              of "\<lambda>j. col_assigned cfg acts pred n j * (student_probs pred n j - 1)\<^sup>2"])
      finally show ?thesis .
    qed
    have b: "(\<Sum>j<?K. col_not_assigned cfg acts ?pred' n j * (student_probs ?pred' n j - (- 1))\<^sup>2)
               = (\<Sum>j<?K. col_not_assigned cfg acts pred n j * (student_probs pred n j - (- 1))\<^sup>2)"
      if "n < ?N" for n
    proof -
      have "(\<Sum>j<?K. col_not_assigned cfg acts ?pred' n j * (student_probs ?pred' n j - (- 1))\<^sup>2)
              = (\<Sum>j<?K. col_not_assigned cfg acts pred n (slot_of n0 p n j)
                   * (student_probs pred n (slot_of n0 p n j) - (- 1))\<^sup>2)"
        by (rule sum.cong) (simp_all add: cols(2) [OF that] student_probs_permute)
      also have "\<dots> = (\<Sum>j<?K. col_not_assigned cfg acts pred n j
                           * (student_probs pred n j - (- 1))\<^sup>2)"
        by (rule sum_slot_of [OF bij',
              of "\<lambda>j. col_not_assigned cfg acts pred n j * (student_probs pred n j - (- 1))\<^sup>2"])
      finally show ?thesis .
    qed
    show ?thesis
      unfolding prob_loss_value_def using a b by simp
  qed
  show ?thesis
    unfolding calculate_loss_Inr_iff using ok rv by (simp add: 1 2 3 4)
qed

text \<open>The tied batch and its permutation evaluated.\<close>

lemma cfg_small_sel [simp]:
  "traj_size_pos_ctrl_pts cfg_small = 1" "traj_size_yaw_ctrl_pts cfg_small = 1"
  "weight_prob cfg_small = 1 / 2"
  by (simp_all add: cfg_small_def)

lemma shapes_tie [simp]:
  "dim0 acts_tie = 1" "dim1 acts_tie = 2" "dim2 acts_tie = 4"
  "dim0 pred_tie = 1" "dim1 pred_tie = 2" "dim2 pred_tie = 4"
  by (simp_all add: acts_tie_def pred_tie_def tensor_def)

lemma item_assignment_tie:
  "item_assignment cfg_small acts_tie pred_tie 0 = Inr [(0, 0), (1, 1)]"
  "item_assignment cfg_small acts_tie (permute_item pred_tie 0 swap2) 0 = Inr [(0, 0), (1, 1)]"
  by code_simp+

lemma entries_tie:
  "distance_matrix acts_tie pred_tie 0 0 0 = 0"
  "distance_matrix acts_tie pred_tie 0 (Suc 0) (Suc 0) = 0"
  "distance_pos_matrix cfg_small acts_tie pred_tie 0 0 0 = Some 0"
  "distance_pos_matrix cfg_small acts_tie pred_tie 0 (Suc 0) (Suc 0) = Some 0"
  "distance_yaw_matrix cfg_small acts_tie pred_tie 0 0 0 = Some 0"
  "distance_yaw_matrix cfg_small acts_tie pred_tie 0 (Suc 0) (Suc 0) = Some 0"
  "distance_time_matrix acts_tie pred_tie 0 0 0 = 0"
  "distance_time_matrix acts_tie pred_tie 0 (Suc 0) (Suc 0) = 0"
  "student_probs pred_tie 0 0 = 1"
  "student_probs pred_tie 0 (Suc 0) = 1"
  by code_simp+

lemma entries_tie_permuted:
  "distance_matrix acts_tie (permute_item pred_tie 0 swap2) 0 0 0 = 25 / 4"
  "distance_matrix acts_tie (permute_item pred_tie 0 swap2) 0 (Suc 0) (Suc 0) = 25 / 4"
  "distance_pos_matrix cfg_small acts_tie (permute_item pred_tie 0 swap2) 0 0 0 = Some 0"
  "distance_pos_matrix cfg_small acts_tie (permute_item pred_tie 0 swap2) 0 (Suc 0) (Suc 0)
     = Some 0"
  "distance_yaw_matrix cfg_small acts_tie (permute_item pred_tie 0 swap2) 0 0 0 = Some 25"
  "distance_yaw_matrix cfg_small acts_tie (permute_item pred_tie 0 swap2) 0 (Suc 0) (Suc 0)
     = Some 25"
  "distance_time_matrix acts_tie (permute_item pred_tie 0 swap2) 0 0 0 = 0"
  "distance_time_matrix acts_tie (permute_item pred_tie 0 swap2) 0 (Suc 0) (Suc 0) = 0"
  "student_probs (permute_item pred_tie 0 swap2) 0 0 = 1"
  "student_probs (permute_item pred_tie 0 swap2) 0 (Suc 0) = 1"
  by code_simp+

lemma calculate_loss_tie:
  "calculate_loss cfg_small acts_tie pred_tie =
     Inr \<lparr>loss = 0, pos_loss = Some 0, yaw_loss = Some 0, prob_loss = 0, time_loss = 0\<rparr>"
proof -
  have "same_shape acts_tie pred_tie" by (simp add: same_shape_def)
  from calculate_loss_identity2 [OF this _ _ _ item_assignment_tie(1)]
  show ?thesis by (simp add: entries_tie)
qed

lemma calculate_loss_tie_permuted:
  "calculate_loss cfg_small acts_tie (permute_item pred_tie 0 swap2) =
     Inr \<lparr>loss = 25 / 4, pos_loss = Some 0, yaw_loss = Some 25, prob_loss = 0, time_loss = 0\<rparr>"
proof -
  have "same_shape acts_tie (permute_item pred_tie 0 swap2)" by (simp add: same_shape_def)
  from calculate_loss_identity2 [OF this _ _ _ item_assignment_tie(2)]
  show ?thesis by (simp add: entries_tie_permuted)
qed

lemma bij_swap2: "bij_betw swap2 {..<2} {..<2}"
proof -
  have "{..<2::nat} = {0, 1}" by auto
  then show ?thesis
    by (auto simp: bij_betw_def inj_on_def swap2_def)
qed

lemma unique_optimum_ex: "unique_optimum cfg_ex acts_ex pred_ex 0"
  by code_simp

text \<open>A batch without any valid expert: nothing is matched, and a loss is returned.\<close>

lemma calculate_loss_all_invalid:
  assumes "same_shape acts pred" "0 < dim0 acts" "1 < dim1 acts" "2 \<le> dim2 acts"
    and inv: "\<forall>n<dim0 acts. \<forall>i<dim1 acts. expert_invalid acts n i"
  shows "calculate_loss cfg acts pred =
     Inr \<lparr>loss = weight_prob cfg *
                   (\<Sum>n<dim0 acts. \<Sum>j<dim1 acts. (student_probs pred n j + 1)\<^sup>2),
          pos_loss = (if traj_size_pos_ctrl_pts cfg = 0 then None else Some 0),
          yaw_loss = (if traj_size_yaw_ctrl_pts cfg = 0 then None else Some 0),
          prob_loss = (\<Sum>n<dim0 acts. \<Sum>j<dim1 acts. (student_probs pred n j + 1)\<^sup>2),
          time_loss = 0\<rparr>"
proof -
  have items: "item_assignment cfg acts pred n = Inr []" if "n < dim0 acts" for n
    using inv that by (intro item_assignment_all_invalid) simp
  have alpha: "alpha_matrix cfg acts pred n i j = 0" if "n < dim0 acts" for n i j
    using items [OF that] assms(3) by (simp add: alpha_matrix_def)
  have cols: "col_assigned cfg acts pred n j = 0" "col_not_assigned cfg acts pred n j = 1"
    if "n < dim0 acts" for n j
    using alpha [OF that] by (simp_all add: col_assigned_def col_not_assigned_def)
  have errs: "distance_loop_error cfg acts pred = None" "solver_loop_error cfg acts pred = None"
    using distance_loop_error_same_shape [OF assms(1,4)] items
    by (simp_all add: solver_loop_error_None)
  have dims: "dim0 acts = dim0 pred" "dim1 acts = dim1 pred"
    using assms(1) by (simp_all add: same_shape_def)
  have 1: "pos_yaw_time_loss cfg acts pred = 0"
    by (simp add: pos_yaw_time_loss_def alpha)
  have 2: "prob_loss_value cfg acts pred
             = (\<Sum>n<dim0 acts. \<Sum>j<dim1 acts. (student_probs pred n j + 1)\<^sup>2)"
    by (simp add: prob_loss_value_def cols)
  have 3: "time_loss_value cfg acts pred = 0"
    by (simp add: time_loss_value_def alpha)
  have 4: "pos_loss_value cfg acts pred
             = (if traj_size_pos_ctrl_pts cfg = 0 then None else Some 0)"
    unfolding pos_loss_value_eq using assms(2,3) by (simp add: alpha)
  have 5: "yaw_loss_value cfg acts pred
             = (if traj_size_yaw_ctrl_pts cfg = 0 then None else Some 0)"
    unfolding yaw_loss_value_eq using assms(2,3) by (simp add: alpha)
  show ?thesis
    unfolding calculate_loss_Inr_iff using errs dims assms(2,3) by (simp add: 1 2 3 4 5)
qed

section \<open>The properties\<close>



text \<open>
  Claim C1. Whenever the loss computation returns, the scalar it returns is
  \<open>matched_cost[full] + weight_prob * prob_loss\<close>: the matched cost is the sum of
  \<open>assignment[i,j] * full_cost[i,j]\<close> over items and pairs divided by \<open>N * K\<close>, and the
  existence loss is the sum of \<open>(score[j] - 1)\<^sup>2\<close> over the assigned slots divided by
  \<open>N * K\<close> plus the sum of \<open>(score[j] + 1)\<^sup>2\<close> over the unassigned slots, not divided.
\<close>

theorem C1_loss_formula:
  assumes "calculate_loss cfg acts pred = Inr r"
  shows "loss r = matched_cost cfg acts pred (distance_matrix acts pred)
                    + weight_prob cfg * spec_prob_loss cfg acts pred
         \<and> prob_loss r = spec_prob_loss cfg acts pred"
proof -
  from assms have r: "loss r = pos_yaw_time_loss cfg acts pred
      + weight_prob cfg * prob_loss_value cfg acts pred"
    "prob_loss r = prob_loss_value cfg acts pred"
    unfolding calculate_loss_Inr_iff by simp_all
  have "prob_loss r = spec_prob_loss cfg acts pred"
    using r(2) prob_loss_value_spec [OF assms] by simp
  moreover have "loss r = matched_cost cfg acts pred (distance_matrix acts pred)
                    + weight_prob cfg * spec_prob_loss cfg acts pred"
    using r(1) prob_loss_value_spec [OF assms]
    by (simp add: pos_yaw_time_loss_def matched_cost_def norm_constant_def)
  ultimately show ?thesis by simp
qed

theorem C1_loss_formula_witness:
  "calculate_loss cfg_ex acts_ex pred_ex =
     Inr \<lparr>loss = 31 / 28, pos_loss = Some (3 / 2), yaw_loss = Some 0, prob_loss = 1 / 2,
          time_loss = 0\<rparr>
   \<and> 31 / 28 = matched_cost cfg_ex acts_ex pred_ex (distance_matrix acts_ex pred_ex)
                 + weight_prob cfg_ex * spec_prob_loss cfg_ex acts_ex pred_ex
   \<and> 1 / 2 = spec_prob_loss cfg_ex acts_ex pred_ex"
  using C1_loss_formula [OF calculate_loss_ex] calculate_loss_ex by simp

text \<open>
  Claim C2. The claim reads: the time cost entry \<open>(i, j)\<close> of batch item \<open>n\<close> is the squared
  difference of the two time scalars of item \<open>n\<close>, whatever the other items hold. The code
  sums the squared differences over the whole batch (\<open>th.sum(..., dim=0)\<close> on vectors
  indexed by the batch) and stores the sum in every item: in the batch below the two time
  scalars of item 0 are equal, yet the entry of item 0 is 9, the squared difference of
  item 1; it becomes 0 when only item 1 is changed.
\<close>

theorem C2_time_cost_sums_over_batch:
  "distance_time_matrix acts_time pred_time 0 0 0 = 9
   \<and> (elem acts_time 0 0 2 - elem pred_time 0 0 2)\<^sup>2 = 0
   \<and> distance_time_matrix acts_time_b pred_time 0 0 0 = 0
   \<and> map (\<lambda>i. map (elem acts_time 0 i) [0, 1, 2, 3]) [0, 1]
       = map (\<lambda>i. map (elem acts_time_b 0 i) [0, 1, 2, 3]) [0, 1]"
  by code_simp

text \<open>
  Claim C3. The claim reads: entry \<open>(i, j)\<close> of the \<open>full\<close> cost matrix is the sum of the
  squared differences of the first \<open>P + Y + 1\<close> components divided by the number of
  components compared. The code compares \<open>P + Y + 1\<close> components (\<open>0:-1\<close>) and divides by
  \<open>num_of_elements_per_traj = P + Y + 2\<close>: with three compared components that each
  differ by 1 the entry is \<open>3 / 4\<close>, not the per-element average 1.
\<close>

theorem C3_full_cost_divisor:
  "distance_matrix acts_full pred_full 0 0 0 = 3 / 4
   \<and> (\<Sum>k<3. (elem acts_full 0 0 k - elem pred_full 0 0 k)\<^sup>2) / 3 = 1
   \<and> dim2 acts_full = traj_size_pos_ctrl_pts cfg_small + traj_size_yaw_ctrl_pts cfg_small + 2"
  by code_simp

text \<open>
  Claim C4. The claim reads: with one trajectory per set the loss computation returns, the
  assignment is the identity, and \<open>pos_loss\<close> is the mean squared error of the positions.
  The code sets the assignment matrix to ones, but \<open>col_assigned\<close> is bound only in the
  branch for more than one trajectory, so the computation stops with an unbound name
  where the existence loss is formed and returns nothing.
\<close>

theorem C4_single_trajectory_fails:
  "calculate_loss cfg_ex acts_one pred_one = Inl UnboundLocalError
   \<and> alpha_matrix cfg_ex acts_one pred_one 0 0 0 = 1"
proof -
  have "same_shape acts_one pred_one" "dim1 acts_one = 1" "0 < dim0 acts_one" "2 \<le> dim2 acts_one"
    by (simp_all add: same_shape_def acts_one_def pred_one_def tensor_def)
  then have "calculate_loss cfg_ex acts_one pred_one = Inl UnboundLocalError"
    by (rule calculate_loss_single_error)
  moreover have "alpha_matrix cfg_ex acts_one pred_one 0 0 0 = 1"
    by (simp add: alpha_matrix_def acts_one_def tensor_def)
  ultimately show ?thesis by simp
qed

text \<open>
  Claim C5, as the specification has it: in every batch item an expert row whose existence
  indicator is \<open>-1\<close> receives no match, and an item whose rows are all invalid has an
  all-zero assignment matrix, with no error raised. With one trajectory per action the
  assignment matrix is all ones whatever the indicator says: the invalid row is matched,
  and the computation ends in an exception.
\<close>

theorem C5_single_invalid_counterexample:
  "dim1 acts_inv1 = 1 \<and> elem acts_inv1 0 0 6 = - 1 \<and> expert_invalid acts_inv1 0 0
   \<and> alpha_matrix cfg_ex acts_inv1 pred_one 0 0 0 = 1
   \<and> calculate_loss cfg_ex acts_inv1 pred_one = Inl UnboundLocalError"
proof -
  have sh: "same_shape acts_inv1 pred_one" "dim1 acts_inv1 = 1" "0 < dim0 acts_inv1"
    "2 \<le> dim2 acts_inv1"
    by (simp_all add: same_shape_def acts_inv1_def pred_one_def tensor_def)
  have "th_round (- 1) = - 1"
    using th_round_of_int [of "- 1"] by simp
  then have "elem acts_inv1 0 0 6 = - 1" "expert_invalid acts_inv1 0 0"
    by (simp_all add: expert_invalid_def acts_inv1_def tensor_def)
  moreover have "alpha_matrix cfg_ex acts_inv1 pred_one 0 0 0 = 1"
    by (simp add: alpha_matrix_def sh(2))
  moreover have "calculate_loss cfg_ex acts_inv1 pred_one = Inl UnboundLocalError"
    by (rule calculate_loss_single_error [OF sh])
  ultimately show ?thesis using sh(2) by simp
qed

text \<open>
  Claim C5, amended: with more than one trajectory per action, an expert row whose
  existence indicator rounds to \<open>-1\<close> receives no match; and if all rows of an item are
  invalid, the solver raises nothing for the item and returns no pair, the item's
  assignment matrix is all zero, the item adds 0 to the matched total of every cost
  matrix \<open>c\<close>, and each of its predicted slots counts as unassigned (\<open>col_assigned\<close> is 0,
  \<open>col_not_assigned\<close> is 1). For an equally shaped batch in which no expert at all is
  valid, a loss is returned: \<open>weight_prob\<close> times the sum of \<open>(score + 1)\<^sup>2\<close> over all
  predicted slots.
\<close>

theorem C5_invalid_rows:
  assumes "1 < dim1 acts"
  shows "(expert_invalid acts n i \<longrightarrow> alpha_matrix cfg acts pred n i j = 0)
         \<and> ((\<forall>i<dim1 acts. expert_invalid acts n i) \<longrightarrow>
              item_assignment cfg acts pred n = Inr []
              \<and> alpha_matrix cfg acts pred n i j = 0
              \<and> (\<Sum>i<dim1 acts. \<Sum>j<dim1 acts. alpha_matrix cfg acts pred n i j * c i j) = 0
              \<and> col_assigned cfg acts pred n j = 0
              \<and> col_not_assigned cfg acts pred n j = 1)
         \<and> (same_shape acts pred \<and> 0 < dim0 acts \<and> 2 \<le> dim2 acts
              \<and> (\<forall>n<dim0 acts. \<forall>i<dim1 acts. expert_invalid acts n i) \<longrightarrow>
              calculate_loss cfg acts pred =
                Inr \<lparr>loss = weight_prob cfg *
                        (\<Sum>n<dim0 acts. \<Sum>j<dim1 acts. (student_probs pred n j + 1)\<^sup>2),
                     pos_loss = (if traj_size_pos_ctrl_pts cfg = 0 then None else Some 0),
                     yaw_loss = (if traj_size_yaw_ctrl_pts cfg = 0 then None else Some 0),
                     prob_loss =
                       (\<Sum>n<dim0 acts. \<Sum>j<dim1 acts. (student_probs pred n j + 1)\<^sup>2),
                     time_loss = 0\<rparr>)"
proof -
  have zero: "alpha_matrix cfg acts pred n i j = 0"
    if "item_assignment cfg acts pred n = Inr []" for i j
    using that assms by (simp add: alpha_matrix_def)
  have "col_assigned cfg acts pred n j = 0 \<and> col_not_assigned cfg acts pred n j = 1"
    if "item_assignment cfg acts pred n = Inr []"
    using zero [OF that] by (simp add: col_assigned_def col_not_assigned_def)
  then have item: "(\<forall>i<dim1 acts. expert_invalid acts n i) \<longrightarrow>
              item_assignment cfg acts pred n = Inr []
              \<and> alpha_matrix cfg acts pred n i j = 0
              \<and> (\<Sum>i<dim1 acts. \<Sum>j<dim1 acts. alpha_matrix cfg acts pred n i j * c i j) = 0
              \<and> col_assigned cfg acts pred n j = 0
              \<and> col_not_assigned cfg acts pred n j = 1"
    using item_assignment_all_invalid [of acts n cfg pred] zero by simp
  have row: "expert_invalid acts n i \<longrightarrow> alpha_matrix cfg acts pred n i j = 0"
    using alpha_matrix_invalid [OF assms] by simp
  have batch: "same_shape acts pred \<and> 0 < dim0 acts \<and> 2 \<le> dim2 acts
              \<and> (\<forall>n<dim0 acts. \<forall>i<dim1 acts. expert_invalid acts n i) \<longrightarrow>
              calculate_loss cfg acts pred =
                Inr \<lparr>loss = weight_prob cfg *
                        (\<Sum>n<dim0 acts. \<Sum>j<dim1 acts. (student_probs pred n j + 1)\<^sup>2),
                     pos_loss = (if traj_size_pos_ctrl_pts cfg = 0 then None else Some 0),
                     yaw_loss = (if traj_size_yaw_ctrl_pts cfg = 0 then None else Some 0),
                     prob_loss =
                       (\<Sum>n<dim0 acts. \<Sum>j<dim1 acts. (student_probs pred n j + 1)\<^sup>2),
                     time_loss = 0\<rparr>"
  proof
    assume a: "same_shape acts pred \<and> 0 < dim0 acts \<and> 2 \<le> dim2 acts
              \<and> (\<forall>n<dim0 acts. \<forall>i<dim1 acts. expert_invalid acts n i)"
    then have "same_shape acts pred" "0 < dim0 acts" "2 \<le> dim2 acts"
      "\<forall>n<dim0 acts. \<forall>i<dim1 acts. expert_invalid acts n i"
      by simp_all
    from calculate_loss_all_invalid [OF this(1,2) assms this(3,4)]
    show "calculate_loss cfg acts pred =
                Inr \<lparr>loss = weight_prob cfg *
                        (\<Sum>n<dim0 acts. \<Sum>j<dim1 acts. (student_probs pred n j + 1)\<^sup>2),
                     pos_loss = (if traj_size_pos_ctrl_pts cfg = 0 then None else Some 0),
                     yaw_loss = (if traj_size_yaw_ctrl_pts cfg = 0 then None else Some 0),
                     prob_loss =
                       (\<Sum>n<dim0 acts. \<Sum>j<dim1 acts. (student_probs pred n j + 1)\<^sup>2),
                     time_loss = 0\<rparr>" .
  qed
  from row item batch show ?thesis by (intro conjI)
qed

theorem C5_invalid_rows_witness:
  "1 < dim1 acts_allinv \<and> expert_invalid acts_allinv 0 0 \<and> expert_invalid acts_allinv 0 1
   \<and> dim0 acts_allinv = 1 \<and> dim1 acts_allinv = 2 \<and> same_shape acts_allinv pred_ex
   \<and> 2 \<le> dim2 acts_allinv
   \<and> item_assignment cfg_ex acts_allinv pred_ex 0 = Inr []
   \<and> alpha_matrix cfg_ex acts_allinv pred_ex 0 0 0 = 0
   \<and> alpha_matrix cfg_ex acts_allinv pred_ex 0 1 1 = 0
   \<and> (\<Sum>i<dim1 acts_allinv. \<Sum>j<dim1 acts_allinv.
         alpha_matrix cfg_ex acts_allinv pred_ex 0 i j * distance_matrix acts_allinv pred_ex 0 i j) = 0
   \<and> col_assigned cfg_ex acts_allinv pred_ex 0 0 = 0
   \<and> col_not_assigned cfg_ex acts_allinv pred_ex 0 0 = 1
   \<and> col_not_assigned cfg_ex acts_allinv pred_ex 0 1 = 1
   \<and> calculate_loss cfg_ex acts_allinv pred_ex =
       Inr \<lparr>loss = 5 / 2, pos_loss = Some 0, yaw_loss = Some 0, prob_loss = 5, time_loss = 0\<rparr>"
proof -
  have K: "dim1 acts_allinv = 2" "dim2 acts_allinv = 7" "dim0 acts_allinv = 1"
    by (simp_all add: acts_allinv_def tensor_def)
  have sh: "same_shape acts_allinv pred_ex"
    by (simp add: same_shape_def K)
  have "th_round (- 1) = - 1"
    using th_round_of_int [of "- 1"] by simp
  then have inv: "expert_invalid acts_allinv 0 0" "expert_invalid acts_allinv 0 1"
    by (simp_all add: expert_invalid_def acts_allinv_def tensor_def)
  have "i = 0 \<or> i = 1" if "i < 2" for i :: nat
    using that by auto
  with inv have all: "\<forall>i<dim1 acts_allinv. expert_invalid acts_allinv 0 i"
    unfolding K by blast
  then have all': "\<forall>n<dim0 acts_allinv. \<forall>i<dim1 acts_allinv. expert_invalid acts_allinv n i"
    unfolding K(3) by simp
  have one: "1 < dim1 acts_allinv" by (simp add: K)
  note t0 = C5_invalid_rows [OF one, of 0 0 cfg_ex pred_ex 0 "distance_matrix acts_allinv pred_ex 0"]
  note t1 = C5_invalid_rows [OF one, of 0 1 cfg_ex pred_ex 1 "distance_matrix acts_allinv pred_ex 0"]
  from t0 sh all' K have "calculate_loss cfg_ex acts_allinv pred_ex =
       Inr \<lparr>loss = weight_prob cfg_ex *
               (\<Sum>n<dim0 acts_allinv. \<Sum>j<dim1 acts_allinv. (student_probs pred_ex n j + 1)\<^sup>2),
            pos_loss = (if traj_size_pos_ctrl_pts cfg_ex = 0 then None else Some 0),
            yaw_loss = (if traj_size_yaw_ctrl_pts cfg_ex = 0 then None else Some 0),
            prob_loss =
              (\<Sum>n<dim0 acts_allinv. \<Sum>j<dim1 acts_allinv. (student_probs pred_ex n j + 1)\<^sup>2),
            time_loss = 0\<rparr>"
    by simp
  then have loss: "calculate_loss cfg_ex acts_allinv pred_ex =
       Inr \<lparr>loss = 5 / 2, pos_loss = Some 0, yaw_loss = Some 0, prob_loss = 5, time_loss = 0\<rparr>"
    by (simp add: K entries_ex numeral_2_eq_2)
  from t0 all have a0: "item_assignment cfg_ex acts_allinv pred_ex 0 = Inr []"
    "alpha_matrix cfg_ex acts_allinv pred_ex 0 0 0 = 0"
    "(\<Sum>i<dim1 acts_allinv. \<Sum>j<dim1 acts_allinv.
         alpha_matrix cfg_ex acts_allinv pred_ex 0 i j * distance_matrix acts_allinv pred_ex 0 i j) = 0"
    "col_assigned cfg_ex acts_allinv pred_ex 0 0 = 0"
    "col_not_assigned cfg_ex acts_allinv pred_ex 0 0 = 1"
    by simp_all
  from t1 all have a1: "alpha_matrix cfg_ex acts_allinv pred_ex 0 1 1 = 0"
    "col_not_assigned cfg_ex acts_allinv pred_ex 0 1 = 1"
    by simp_all
  from inv one K sh loss a0 a1 show ?thesis by simp
qed

text \<open>
  Claim C6. With more than one trajectory per action, the pairs set in the assignment
  matrix of an item match the valid expert rows, in order, to distinct predicted columns,
  and their total position cost is at most that of every one-to-one matching \<open>\<sigma>\<close> of the
  valid rows to columns. In particular, for the position costs \<open>[[1, 4], [3, 2]]\<close> with
  both experts valid the pairs are \<open>(0, 0)\<close> and \<open>(1, 1)\<close>, and for the batch of that one
  item \<open>pos_loss\<close> is \<open>3 / (1 * 2)\<close>.
\<close>

theorem C6_assignment_minimal:
  "(1 < dim1 acts \<and> item_assignment cfg acts pred n = Inr ms
      \<and> inj_on \<sigma> {i. i < dim1 acts \<and> \<not> expert_invalid acts n i}
      \<and> \<sigma> ` {i. i < dim1 acts \<and> \<not> expert_invalid acts n i} \<subseteq> {..<dim1 acts}
    \<longrightarrow>
      map fst ms = valid_rows acts n \<and> distinct (map snd ms)
      \<and> set (map snd ms) \<subseteq> {..<dim1 acts}
      \<and> (\<Sum>i<dim1 acts. \<Sum>j<dim1 acts.
            alpha_matrix cfg acts pred n i j * the (distance_pos_matrix cfg acts pred n i j))
          \<le> (\<Sum>i | i < dim1 acts \<and> \<not> expert_invalid acts n i.
                the (distance_pos_matrix cfg acts pred n i (\<sigma> i))))
   \<and> map (\<lambda>(i, j). distance_pos_matrix cfg_ex acts_ex pred_ex 0 i j) [(0, 0), (0, 1), (1, 0), (1, 1)]
       = [Some 1, Some 4, Some 3, Some 2]
   \<and> valid_rows acts_ex 0 = [0, 1]
   \<and> item_assignment cfg_ex acts_ex pred_ex 0 = Inr [(0, 0), (1, 1)]
   \<and> dim0 acts_ex = 1
   \<and> map_sum id pos_loss (calculate_loss cfg_ex acts_ex pred_ex) = Inr (Some (3 / (1 * 2)))"
proof -
  have "valid_rows acts_ex 0 = [0, 1]"
    using matching_pairs(1) [OF item_assignment_ex] by simp
  then show ?thesis
    using matching_minimal [of acts cfg pred n ms \<sigma>] matching_pairs [of cfg acts pred n ms]
      item_assignment_ex calculate_loss_ex
    by (simp add: distance_pos_matrix_ex)
qed

theorem C6_assignment_minimal_witness:
  "1 < dim1 acts_ex \<and> item_assignment cfg_ex acts_ex pred_ex 0 = Inr [(0, 0), (1, 1)]
   \<and> inj_on (\<lambda>i. 1 - i) {i. i < dim1 acts_ex \<and> \<not> expert_invalid acts_ex 0 i}
   \<and> (\<lambda>i. 1 - i) ` {i. i < dim1 acts_ex \<and> \<not> expert_invalid acts_ex 0 i} \<subseteq> {..<dim1 acts_ex}
   \<and> (\<Sum>i<dim1 acts_ex. \<Sum>j<dim1 acts_ex.
         alpha_matrix cfg_ex acts_ex pred_ex 0 i j
           * the (distance_pos_matrix cfg_ex acts_ex pred_ex 0 i j))
       \<le> (\<Sum>i | i < dim1 acts_ex \<and> \<not> expert_invalid acts_ex 0 i.
             the (distance_pos_matrix cfg_ex acts_ex pred_ex 0 i (1 - i)))"
proof -
  have inj: "inj_on (\<lambda>i. 1 - i) {i. i < dim1 acts_ex \<and> \<not> expert_invalid acts_ex 0 i}"
    by (auto simp: inj_on_def)
  have img: "(\<lambda>i. 1 - i) ` {i. i < dim1 acts_ex \<and> \<not> expert_invalid acts_ex 0 i}
      \<subseteq> {..<dim1 acts_ex}"
    by auto
  have K: "1 < dim1 acts_ex" by simp
  from C6_assignment_minimal [of acts_ex cfg_ex pred_ex 0 "[(0, 0), (1, 1)]" "\<lambda>i. 1 - i"]
    K item_assignment_ex inj img
  show ?thesis by blast
qed

text \<open>
  Claim C7, as the specification has it: for every \<open>K\<close>, also \<open>K = 1\<close>, each invalid expert
  row of the assignment matrix is all zero. With one trajectory per action the matrix is
  all ones: the row of an invalid expert holds a 1.
\<close>

theorem C7_single_invalid_counterexample:
  "dim1 acts_inv1 = 1 \<and> expert_invalid acts_inv1 0 0
   \<and> card {j \<in> {..<dim1 acts_inv1}. alpha_matrix cfg_ex acts_inv1 pred_one 0 0 j = 1} = 1"
proof -
  have K: "dim1 acts_inv1 = 1"
    by (simp add: acts_inv1_def tensor_def)
  have "th_round (- 1) = - 1"
    using th_round_of_int [of "- 1"] by simp
  then have inv: "expert_invalid acts_inv1 0 0"
    by (simp add: expert_invalid_def acts_inv1_def tensor_def)
  have "{j \<in> {..<dim1 acts_inv1}. alpha_matrix cfg_ex acts_inv1 pred_one 0 0 j = 1} = {0}"
    unfolding K by (auto simp: alpha_matrix_def K)
  with K inv show ?thesis by simp
qed

text \<open>
  Claim C7, amended: with more than one trajectory per action, whenever the solver has
  returned for the item, the assignment matrix holds only 0 and 1, each valid expert row
  holds exactly one 1, each invalid expert row is all zero, and each column holds at most
  one 1. With at most one trajectory per action the matrix is all ones, whether the
  expert is valid or not.
\<close>

theorem C7_assignment_invariant:
  "(1 < dim1 acts \<and> item_assignment cfg acts pred n = Inr ms \<longrightarrow>
      (alpha_matrix cfg acts pred n i j = 0 \<or> alpha_matrix cfg acts pred n i j = 1)
      \<and> (i < dim1 acts \<and> \<not> expert_invalid acts n i \<longrightarrow>
           card {j \<in> {..<dim1 acts}. alpha_matrix cfg acts pred n i j = 1} = 1)
      \<and> (expert_invalid acts n i \<longrightarrow> alpha_matrix cfg acts pred n i j = 0)
      \<and> card {i \<in> {..<dim1 acts}. alpha_matrix cfg acts pred n i j = 1} \<le> 1)
   \<and> (dim1 acts \<le> 1 \<longrightarrow> alpha_matrix cfg acts pred n i j = 1)"
proof -
  have row: "card {j \<in> {..<dim1 acts}. alpha_matrix cfg acts pred n i j = 1} = 1"
    if K: "1 < dim1 acts" and ms: "item_assignment cfg acts pred n = Inr ms"
      and i: "i < dim1 acts" "\<not> expert_invalid acts n i"
  proof -
    from alpha_matrix_row_exists [OF K ms i] obtain j0
      where j0: "j0 < dim1 acts" "alpha_matrix cfg acts pred n i j0 = 1" by blast
    have "{j \<in> {..<dim1 acts}. alpha_matrix cfg acts pred n i j = 1} = {j0}"
    proof (intro set_eqI iffI)
      fix j
      assume "j \<in> {j \<in> {..<dim1 acts}. alpha_matrix cfg acts pred n i j = 1}"
      then have "alpha_matrix cfg acts pred n i j = 1" by simp
      from alpha_matrix_row_unique [OF K ms this j0(2)] show "j \<in> {j0}" by simp
    next
      fix j
      assume "j \<in> {j0}"
      with j0 show "j \<in> {j \<in> {..<dim1 acts}. alpha_matrix cfg acts pred n i j = 1}" by simp
    qed
    then show ?thesis by simp
  qed
  have col: "card {i \<in> {..<dim1 acts}. alpha_matrix cfg acts pred n i j = 1} \<le> 1"
    if K: "1 < dim1 acts" and ms: "item_assignment cfg acts pred n = Inr ms"
  proof (cases "\<exists>a<dim1 acts. alpha_matrix cfg acts pred n a j = 1")
    case True
    then obtain a where a: "a < dim1 acts" "alpha_matrix cfg acts pred n a j = 1" by blast
    have "{i \<in> {..<dim1 acts}. alpha_matrix cfg acts pred n i j = 1} = {a}"
    proof (intro set_eqI iffI)
      fix i
      assume "i \<in> {i \<in> {..<dim1 acts}. alpha_matrix cfg acts pred n i j = 1}"
      then have "alpha_matrix cfg acts pred n i j = 1" by simp
      from alpha_matrix_col_unique [OF K ms this a(2)] show "i \<in> {a}" by simp
    next
      fix i
      assume "i \<in> {a}"
      with a show "i \<in> {i \<in> {..<dim1 acts}. alpha_matrix cfg acts pred n i j = 1}" by simp
    qed
    then show ?thesis by simp
  next
    case False
    then have e: "{i \<in> {..<dim1 acts}. alpha_matrix cfg acts pred n i j = 1} = {}" by simp
    show ?thesis unfolding e by simp
  qed
  have bits: "alpha_matrix cfg acts pred n i j = 0 \<or> alpha_matrix cfg acts pred n i j = 1"
    if "1 < dim1 acts" "item_assignment cfg acts pred n = Inr ms"
    by (rule alpha_matrix_01 [OF that])
  have ones: "alpha_matrix cfg acts pred n i j = 1" if "dim1 acts \<le> 1"
    using that by (simp add: alpha_matrix_def)
  show ?thesis
    using row col bits ones alpha_matrix_invalid [of acts n i cfg pred j] by blast
qed

theorem C7_assignment_invariant_witness:
  "1 < dim1 acts_ex \<and> item_assignment cfg_ex acts_ex pred_ex 0 = Inr [(0, 0), (1, 1)]
   \<and> \<not> expert_invalid acts_ex 0 0
   \<and> card {j \<in> {..<dim1 acts_ex}. alpha_matrix cfg_ex acts_ex pred_ex 0 0 j = 1} = 1
   \<and> card {i \<in> {..<dim1 acts_ex}. alpha_matrix cfg_ex acts_ex pred_ex 0 i 0 = 1} \<le> 1
   \<and> 1 < dim1 acts_allinv \<and> item_assignment cfg_ex acts_allinv pred_ex 0 = Inr []
   \<and> expert_invalid acts_allinv 0 0 \<and> alpha_matrix cfg_ex acts_allinv pred_ex 0 0 0 = 0
   \<and> dim1 acts_one \<le> 1 \<and> alpha_matrix cfg_ex acts_one pred_one 0 0 0 = 1"
proof -
  have "th_round (- 1) = - 1"
    using th_round_of_int [of "- 1"] by simp
  then have inv: "expert_invalid acts_allinv 0 0" "expert_invalid acts_allinv 0 (Suc 0)"
    "\<not> expert_invalid acts_ex 0 0"
    by (simp_all add: expert_invalid_def acts_allinv_def acts_ex_def tensor_def)
  have K: "dim1 acts_allinv = 2" "dim1 acts_one \<le> 1"
    by (simp_all add: acts_allinv_def acts_one_def tensor_def)
  have "i = 0 \<or> i = Suc 0" if "i < 2" for i :: nat
    using that by auto
  with inv have "\<forall>i<dim1 acts_allinv. expert_invalid acts_allinv 0 i"
    unfolding K by blast
  then have empty: "item_assignment cfg_ex acts_allinv pred_ex 0 = Inr []"
    by (rule item_assignment_all_invalid)
  from C7_assignment_invariant [of acts_ex cfg_ex pred_ex 0 "[(0, 0), (1, 1)]" 0 0]
    C7_assignment_invariant [of acts_allinv cfg_ex pred_ex 0 "[]" 0 0]
    C7_assignment_invariant [of acts_one cfg_ex pred_one 0 "[]" 0 0]
    item_assignment_ex empty inv K
  show ?thesis by simp
qed

text \<open>
  Claim C8, as the specification has it: permuting the predicted trajectories of one item
  (slots and scores together) leaves the loss and all matched costs unchanged. The
  assignment is chosen from the position costs alone: when two matchings have the same
  position cost, the solver's choice is a function of the position matrix, which the
  permutation may leave as it is, while the full costs of the pairs change. In the batch
  below both predictions have the position of both experts; swapping them changes the
  loss from 0 to 25/4 and the yaw loss from 0 to 25.
\<close>

theorem C8_tie_counterexample:
  "bij_betw swap2 {..<dim1 pred_tie} {..<dim1 pred_tie}
   \<and> calculate_loss cfg_small acts_tie pred_tie =
       Inr \<lparr>loss = 0, pos_loss = Some 0, yaw_loss = Some 0, prob_loss = 0, time_loss = 0\<rparr>
   \<and> calculate_loss cfg_small acts_tie (permute_item pred_tie 0 swap2) =
       Inr \<lparr>loss = 25 / 4, pos_loss = Some 0, yaw_loss = Some 25, prob_loss = 0, time_loss = 0\<rparr>"
  using calculate_loss_tie calculate_loss_tie_permuted bij_swap2 by simp

text \<open>
  Claim C8, amended: when the loss computation returns for a batch and the optimal
  position matching of item \<open>n0\<close> is unique, then for every permutation \<open>p\<close> of the
  predicted slots of item \<open>n0\<close> the computation returns for the permuted batch as well,
  with the same loss, position loss, yaw loss and existence loss, and the assignment
  matrix of item \<open>n0\<close> is the former one with its columns permuted by \<open>p\<close>. (Nothing is
  said about the time loss.)
\<close>

theorem C8_permutation_invariance:
  assumes "calculate_loss cfg acts pred = Inr r"
    and "bij_betw p {..<dim1 pred} {..<dim1 pred}"
    and "n0 < dim0 pred"
    and "unique_optimum cfg acts pred n0"
  shows "(\<exists>r'. calculate_loss cfg acts (permute_item pred n0 p) = Inr r'
            \<and> loss r' = loss r \<and> pos_loss r' = pos_loss r \<and> yaw_loss r' = yaw_loss r
            \<and> prob_loss r' = prob_loss r)
         \<and> (j < dim1 pred \<longrightarrow>
              alpha_matrix cfg acts (permute_item pred n0 p) n0 i j
                = alpha_matrix cfg acts pred n0 i (p j))"
proof -
  from assms(1) have ok: "dim0 acts = dim0 pred" "dim1 acts = dim1 pred" "1 < dim1 acts"
    unfolding calculate_loss_Inr_iff by simp_all
  from assms(3) ok(1) have "n0 < dim0 acts" by simp
  from calculate_loss_items [OF assms(1) this]
  obtain ms where ms: "item_assignment cfg acts pred n0 = Inr ms" ..
  have bij: "bij_betw p {..<dim1 acts} {..<dim1 acts}"
    using assms(2) ok(2) by simp
  have "alpha_matrix cfg acts (permute_item pred n0 p) n0 i j
          = alpha_matrix cfg acts pred n0 i (p j)" if "j < dim1 pred"
    using alpha_matrix_permute [OF ok(3) bij assms(3) _ ms, of n0 j i] assms(4) that ok(2)
    by (simp add: slot_of_def)
  with calculate_loss_permute [OF assms(1,2,4)] show ?thesis by simp
qed

theorem C8_permutation_invariance_witness:
  "calculate_loss cfg_ex acts_ex pred_ex =
     Inr \<lparr>loss = 31 / 28, pos_loss = Some (3 / 2), yaw_loss = Some 0, prob_loss = 1 / 2,
          time_loss = 0\<rparr>
   \<and> bij_betw swap2 {..<dim1 pred_ex} {..<dim1 pred_ex}
   \<and> 0 < dim0 pred_ex
   \<and> unique_optimum cfg_ex acts_ex pred_ex 0
   \<and> (\<exists>r'. calculate_loss cfg_ex acts_ex (permute_item pred_ex 0 swap2) = Inr r'
          \<and> loss r' = 31 / 28 \<and> pos_loss r' = Some (3 / 2) \<and> yaw_loss r' = Some 0
          \<and> prob_loss r' = 1 / 2)
   \<and> alpha_matrix cfg_ex acts_ex (permute_item pred_ex 0 swap2) 0 0 1 = 1"
proof -
  have bij: "bij_betw swap2 {..<dim1 pred_ex} {..<dim1 pred_ex}"
    using bij_swap2 by simp
  have n0: "0 < dim0 pred_ex" by simp
  have "alpha_matrix cfg_ex acts_ex pred_ex 0 0 0 = 1"
    by (simp add: alpha_matrix_def item_assignment_ex)
  with C8_permutation_invariance [OF calculate_loss_ex bij n0 unique_optimum_ex, of 1 0]
    calculate_loss_ex bij unique_optimum_ex
  show ?thesis by (simp add: swap2_def)
qed

text \<open>
  Claim C9, as the specification has it: a shape error is raised when, and only when, a
  trajectory's length differs from \<open>P + Y + 2\<close>, or the set sizes or the batch sizes of
  expert and prediction differ. The code never compares the length with \<open>P + Y + 2\<close>:
  trajectories of eight entries pass with \<open>P = 4\<close>, \<open>Y = 1\<close>, and a loss is returned.
\<close>

theorem C9_length_unchecked_counterexample:
  "dim2 acts_long = 8 \<and> dim2 pred_long = 8
   \<and> traj_size_pos_ctrl_pts cfg_ex + traj_size_yaw_ctrl_pts cfg_ex + 2 = 7
   \<and> calculate_loss cfg_ex acts_long pred_long =
       Inr \<lparr>loss = 1, pos_loss = Some (3 / 2), yaw_loss = Some 0, prob_loss = 1 / 2,
            time_loss = 0\<rparr>"
  using calculate_loss_long by simp

text \<open>
  Claim C9, amended: when the batch sizes or the set sizes of expert and prediction
  differ, the computation ends in an exception, before any loss value is produced and
  with nothing returned; and the assertions on the shapes fail only when one of these
  sizes differs. The trajectory length is not compared with \<open>P + Y + 2\<close>.
\<close>

theorem C9_shape_errors:
  "(dim0 acts \<noteq> dim0 pred \<or> dim1 acts \<noteq> dim1 pred
      \<longrightarrow> (\<exists>e. calculate_loss cfg acts pred = Inl e))
   \<and> (calculate_loss cfg acts pred = Inl AssertionError
      \<longrightarrow> dim0 acts \<noteq> dim0 pred \<or> dim1 acts \<noteq> dim1 pred)"
  using calculate_loss_mismatch [of acts pred cfg] calculate_loss_assertion [of cfg acts pred]
  by blast

theorem C9_shape_errors_witness:
  "dim1 acts_ex \<noteq> dim1 pred_one
   \<and> (\<exists>e. calculate_loss cfg_ex acts_ex pred_one = Inl e)
   \<and> calculate_loss cfg_ex acts_ex pred_three = Inl AssertionError
   \<and> dim0 acts_ex = dim0 pred_three \<and> dim1 acts_ex \<noteq> dim1 pred_three"
proof -
  have 1: "dim1 acts_ex \<noteq> dim1 pred_one"
    by (simp add: pred_one_def tensor_def)
  from 1 C9_shape_errors [of acts_ex pred_one cfg_ex]
  have "\<exists>e. calculate_loss cfg_ex acts_ex pred_one = Inl e" by blast
  moreover from calculate_loss_three C9_shape_errors [of acts_ex pred_three cfg_ex]
  have "dim0 acts_ex \<noteq> dim0 pred_three \<or> dim1 acts_ex \<noteq> dim1 pred_three" by blast
  then have "dim0 acts_ex = dim0 pred_three \<and> dim1 acts_ex \<noteq> dim1 pred_three" by simp
  ultimately show ?thesis using 1 calculate_loss_three by blast
qed

text \<open>
  Claim C10, as the specification has it: for \<open>P > 0\<close> and \<open>Y \<ge> 0\<close> no cost matrix entry
  is computed by a division by zero, and with \<open>Y = 0\<close> the yaw entries and \<open>yaw_loss\<close> are
  finite. The yaw entry is divided by \<open>traj_size_yaw_ctrl_pts\<close>: with \<open>Y = 0\<close> it is the
  quotient of an empty sum by zero, and \<open>yaw_loss\<close> is not a finite number.
\<close>

theorem C10_no_yaw_counterexample:
  "0 < traj_size_pos_ctrl_pts cfg_noyaw \<and> traj_size_yaw_ctrl_pts cfg_noyaw = 0
   \<and> distance_yaw_matrix cfg_noyaw acts_noyaw pred_noyaw 0 0 0 = None
   \<and> calculate_loss cfg_noyaw acts_noyaw pred_noyaw =
       Inr \<lparr>loss = 5 / 4, pos_loss = Some (3 / 2), yaw_loss = None, prob_loss = 1 / 2,
            time_loss = 0\<rparr>"
  using calculate_loss_noyaw by simp

text \<open>
  Claim C10, amended: for \<open>P > 0\<close> and \<open>Y > 0\<close> every position and yaw entry is finite, and
  where the loop has run without an exception for at least one trajectory the third
  divisor, the trajectory size, is not zero either; a returned \<open>pos_loss\<close> and \<open>yaw_loss\<close>
  are finite. With \<open>Y = 0\<close> every yaw entry is non-finite, and so is every returned
  \<open>yaw_loss\<close>.
\<close>

theorem C10_divisors:
  "(0 < traj_size_pos_ctrl_pts cfg \<and> 0 < traj_size_yaw_ctrl_pts cfg \<longrightarrow>
      distance_pos_matrix cfg acts pred n i j \<noteq> None
      \<and> distance_yaw_matrix cfg acts pred n i j \<noteq> None
      \<and> (distance_loop_error cfg acts pred = None \<and> 0 < dim1 acts \<longrightarrow> dim2 acts \<noteq> 0)
      \<and> (calculate_loss cfg acts pred = Inr r \<longrightarrow> pos_loss r \<noteq> None \<and> yaw_loss r \<noteq> None))
   \<and> (traj_size_yaw_ctrl_pts cfg = 0 \<longrightarrow>
      distance_yaw_matrix cfg acts pred n i j = None
      \<and> (calculate_loss cfg acts pred = Inr r \<longrightarrow> yaw_loss r = None))"
proof -
  have L: "dim2 acts \<noteq> 0" if "distance_loop_error cfg acts pred = None" "0 < dim1 acts"
    using distance_loop_error_NoneD(1) [OF that] by simp
  have fields: "pos_loss r = pos_loss_value cfg acts pred" "yaw_loss r = yaw_loss_value cfg acts pred"
    "0 < dim0 acts" "0 < dim1 acts"
    if "calculate_loss cfg acts pred = Inr r"
    using that unfolding calculate_loss_Inr_iff by simp_all
  show ?thesis
    using L fields by (auto simp: pos_loss_value_eq yaw_loss_value_eq)
qed

theorem C10_divisors_witness:
  "0 < traj_size_pos_ctrl_pts cfg_ex \<and> 0 < traj_size_yaw_ctrl_pts cfg_ex
   \<and> distance_pos_matrix cfg_ex acts_ex pred_ex 0 0 0 \<noteq> None
   \<and> distance_yaw_matrix cfg_ex acts_ex pred_ex 0 0 0 \<noteq> None
   \<and> distance_loop_error cfg_ex acts_ex pred_ex = None \<and> 0 < dim1 acts_ex \<and> dim2 acts_ex \<noteq> 0
   \<and> traj_size_yaw_ctrl_pts cfg_noyaw = 0
   \<and> distance_yaw_matrix cfg_noyaw acts_noyaw pred_noyaw 0 0 0 = None
   \<and> calculate_loss cfg_ex acts_ex pred_ex =
       Inr \<lparr>loss = 31 / 28, pos_loss = Some (3 / 2), yaw_loss = Some 0, prob_loss = 1 / 2,
            time_loss = 0\<rparr>
   \<and> calculate_loss cfg_noyaw acts_noyaw pred_noyaw =
       Inr \<lparr>loss = 5 / 4, pos_loss = Some (3 / 2), yaw_loss = None, prob_loss = 1 / 2,
            time_loss = 0\<rparr>"
proof -
  have "same_shape acts_ex pred_ex" by (simp add: same_shape_def)
  then have "distance_loop_error cfg_ex acts_ex pred_ex = None"
    by (rule distance_loop_error_same_shape) simp
  then show ?thesis
    using C10_divisors [of cfg_ex acts_ex pred_ex 0 0 0
        "\<lparr>loss = 31 / 28, pos_loss = Some (3 / 2), yaw_loss = Some 0, prob_loss = 1 / 2,
          time_loss = 0\<rparr>"]
      C10_divisors [of cfg_noyaw acts_noyaw pred_noyaw 0 0 0
        "\<lparr>loss = 5 / 4, pos_loss = Some (3 / 2), yaw_loss = None, prob_loss = 1 / 2,
          time_loss = 0\<rparr>"]
      calculate_loss_noyaw calculate_loss_ex
    by simp
qed

end
